theory Spec2Isabelle
  imports Main "HOL-Library.Monad_Syntax"
begin

section \<open>Strings, formatting and errors\<close>

text \<open>
  A Go string is a sequence of bytes: \<^typ>\<open>string\<close>, a list of 8-bit characters.
\<close>

definition strings_HasPrefix :: "string \<Rightarrow> string \<Rightarrow> bool" where
  "strings_HasPrefix s p \<longleftrightarrow> take (length p) s = p"

definition strings_TrimPrefix :: "string \<Rightarrow> string \<Rightarrow> string" where
  "strings_TrimPrefix s p = (if strings_HasPrefix s p then drop (length p) s else s)"

text \<open>
  \<^verbatim>\<open>strings.Split(s, sep)\<close> for a separator of one byte, as in the only call of the
  program (\<^verbatim>\<open>"/"\<close>): the pieces between the separators, empty pieces included, so the
  result always has one piece more than \<open>s\<close> has separators.
\<close>

fun strings_Split :: "string \<Rightarrow> char \<Rightarrow> string list" where
  "strings_Split [] sep = [[]]"
| "strings_Split (c # s) sep =
     (if c = sep then [] # strings_Split s sep
      else (case strings_Split s sep of
              [] \<Rightarrow> [[c]]
            | p # ps \<Rightarrow> (c # p) # ps))"

text \<open>
  \<^verbatim>\<open>fmt.Sprintf\<close> for the verb \<^verbatim>\<open>%s\<close> over string arguments. The calls of the program
  (\<^verbatim>\<open>"v%s"\<close>, \<^verbatim>\<open>"v%s.%s"\<close>, \<^verbatim>\<open>"tags/%s"\<close>, \<^verbatim>\<open>"refs/tags/%s"\<close>) use no
  other verb and pass as many arguments as verbs; a verb without argument prints
  \<^verbatim>\<open>%!s(MISSING)\<close> as package fmt does.
\<close>

fun Sprintf :: "string \<Rightarrow> string list \<Rightarrow> string" where
  "Sprintf [] args = []"
| "Sprintf [c] args = [c]"
| "Sprintf (c # d # format) args =
     (if c = CHR ''%'' \<and> d = CHR ''s'' then
        (case args of
           [] \<Rightarrow> ''%!s(MISSING)'' @ Sprintf format []
         | a # as \<Rightarrow> a @ Sprintf format as)
      else c # Sprintf (d # format) args)"

text \<open>
  Go's \<^verbatim>\<open>error\<close> values, as far as the program builds and inspects them. An error made
  by \<^verbatim>\<open>fmt.Errorf\<close> keeps its format string and its arguments instead of the rendered
  text (the verb \<^verbatim>\<open>%q\<close> needs the quoting of package strconv), and, when the format
  ends in \<^verbatim>\<open>%w\<close>, the error it wraps. \<^verbatim>\<open>errors.Join\<close> keeps the list of the errors
  joined, in order. \<open>New\<close> is an error with a text only (\<^verbatim>\<open>errors.New\<close>): what a
  client or a test hands back, and the sentinels of package context.
\<close>

datatype error =
    New string
  | Errorf string "string list"
  | Errorw string "string list" error
  | Join "error list"

text \<open>
  \<^verbatim>\<open>errors.Join(errs...)\<close> over errors none of which is nil (the elements of
  \<^verbatim>\<open>syncErrors\<close> all come from \<^verbatim>\<open>fmt.Errorf\<close>): nil for no error at all.
\<close>

definition errors_Join :: "error list \<Rightarrow> error option" where
  "errors_Join errs = (if errs = [] then None else Some (Join errs))"

definition context_Canceled :: error where
  "context_Canceled = New ''context canceled''"


section \<open>The semantic version parser\<close>

text \<open>
  \<^verbatim>\<open>var semverRegex = regexp.MustCompile(`^v(\d+)\.(\d+)\.(\d+)([-+].*)?$`)\<close>

  The pattern is matched from left to right, piece by piece. In Go's syntax \<^verbatim>\<open>\d\<close>
  is an ASCII digit, \<^verbatim>\<open>.\<close> is any character but the line feed (the flag \<^verbatim>\<open>s\<close> is
  off), and \<^verbatim>\<open>$\<close> is the end of the text (the flag \<^verbatim>\<open>m\<close> is off). A group
  \<^verbatim>\<open>(\d+)\<close> can only end where the digits end, since what follows it in the pattern
  (a dot, a sign, or the end of the text) is never a digit: so the greedy group takes
  the longest run of digits and no backtracking into it can succeed.
\<close>

definition is_digit :: "char \<Rightarrow> bool" where
  "is_digit c \<longleftrightarrow> c \<in> set ''0123456789''"

definition line_feed :: char where
  "line_feed = CHR 0x0A"

text \<open>\<^verbatim>\<open>(\d+)\<close>: the captured digits and the rest of the text.\<close>

definition match_digits :: "string \<Rightarrow> (string \<times> string) option" where
  "match_digits s =
     (let d = takeWhile is_digit s
      in if d = [] then None else Some (d, dropWhile is_digit s))"

text \<open>A literal character of the pattern (\<^verbatim>\<open>v\<close>, \<^verbatim>\<open>\.\<close>): the rest of the text.\<close>

definition match_char :: "char \<Rightarrow> string \<Rightarrow> string option" where
  "match_char c s = (case s of [] \<Rightarrow> None | x # r \<Rightarrow> if x = c then Some r else None)"

text \<open>
  \<^verbatim>\<open>([-+].*)?$\<close>: the captured text, empty when the group takes no part in the match.
\<close>

definition match_suffix :: "string \<Rightarrow> string option" where
  "match_suffix s =
     (case s of
        [] \<Rightarrow> Some []
      | x # r \<Rightarrow>
          if (x = CHR ''-'' \<or> x = CHR ''+'') \<and> line_feed \<notin> set r then Some s else None)"

text \<open>
  \<^verbatim>\<open>semverRegex.FindStringSubmatch(tag)\<close>: nil when the text does not match, otherwise
  the whole match followed by the four groups.
\<close>

definition semverRegex_FindStringSubmatch :: "string \<Rightarrow> string list option" where
  "semverRegex_FindStringSubmatch tag =
     do {
       r0 \<leftarrow> match_char CHR ''v'' tag;
       (major, r1) \<leftarrow> match_digits r0;
       r2 \<leftarrow> match_char CHR ''.'' r1;
       (minor, r3) \<leftarrow> match_digits r2;
       r4 \<leftarrow> match_char CHR ''.'' r3;
       (patch, r5) \<leftarrow> match_digits r4;
       suffix \<leftarrow> match_suffix r5;
       Some [tag, major, minor, patch, suffix]
     }"

record SemVer =
  Major :: string
  Minor :: string
  Patch :: string
  Suffix :: string
  Full :: string
  IsPrerelease :: bool

definition ParseSemVer :: "string \<Rightarrow> error + SemVer" where
  "ParseSemVer tag =
     (case semverRegex_FindStringSubmatch tag of
        None \<Rightarrow>
          Inl (Errorf ''tag %q does not match semantic versioning format (expected vX.Y.Z)'' [tag])
      | Some matches \<Rightarrow>
          (let suffix = (if length matches > 4 then matches ! 4 else '''');
               isPrerelease = strings_HasPrefix suffix ''-''
           in Inr \<lparr>Major = matches ! 1, Minor = matches ! 2, Patch = matches ! 3,
                   Suffix = suffix, Full = tag, IsPrerelease = isPrerelease\<rparr>))"

definition MajorTag :: "SemVer \<Rightarrow> string" where
  "MajorTag s = Sprintf ''v%s'' [Major s]"

definition MinorTag :: "SemVer \<Rightarrow> string" where
  "MinorTag s = Sprintf ''v%s.%s'' [Major s, Minor s]"

text \<open>
  The grammar of the specification, in its own words: a lowercase \<open>v\<close>, three non-empty
  runs of decimal digits separated by dots, and an optional suffix that starts with
  \<open>-\<close> or \<open>+\<close>, from the first to the last character of the tag.
\<close>

definition digit_string :: "string \<Rightarrow> bool" where
  "digit_string d \<longleftrightarrow> d \<noteq> [] \<and> list_all is_digit d"

definition spec_suffix :: "string \<Rightarrow> bool" where
  "spec_suffix x \<longleftrightarrow> x = [] \<or> hd x = CHR ''-'' \<or> hd x = CHR ''+''"

definition spec_form :: "string \<Rightarrow> string \<Rightarrow> string \<Rightarrow> string \<Rightarrow> string \<Rightarrow> bool" where
  "spec_form tag a b c x \<longleftrightarrow>
     tag = ''v'' @ a @ ''.'' @ b @ ''.'' @ c @ x \<and>
     digit_string a \<and> digit_string b \<and> digit_string c \<and> spec_suffix x"


section \<open>Configuration\<close>

record Config =
  GitHubToken :: string
  GitHubRepo :: string
  GitRef :: string
  CommitSHA :: string
  SyncMajor :: bool
  SyncMinor :: bool
  SkipPrereleases :: bool
  DryRun :: bool
  GitHubEnterpriseURL :: string
  LogLevel :: string

definition Validate :: "Config \<Rightarrow> error option" where
  "Validate c =
     (if GitHubToken c = [] then
        Some (Errorf ''github token is required (set --github-token or GITHUB_TOKEN)'' [])
      else if GitHubRepo c = [] then
        Some (Errorf ''github repo is required (set --github-repo or GITHUB_REPOSITORY)'' [])
      else if GitRef c = [] then
        Some (Errorf ''git ref is required (set --git-ref or GITHUB_REF)'' [])
      else if CommitSHA c = [] then
        Some (Errorf ''commit sha is required (set --commit-sha or GITHUB_SHA)'' [])
      else if \<not> SyncMajor c \<and> \<not> SyncMinor c then
        Some (Errorf ''at least one of --sync-major or --sync-minor must be enabled'' [])
      else None)"

text \<open>
  The conditions under which the specification lets the configuration fail: the
  repository, the ref or the commit identifier is empty, or both switches are off.
\<close>

definition spec_listed_ok :: "Config \<Rightarrow> bool" where
  "spec_listed_ok c \<longleftrightarrow>
     GitHubRepo c \<noteq> [] \<and> GitRef c \<noteq> [] \<and> CommitSHA c \<noteq> [] \<and> (SyncMajor c \<or> SyncMinor c)"


section \<open>Refs and repositories\<close>

definition extractTagFromRef :: "string \<Rightarrow> error + string" where
  "extractTagFromRef ref =
     (if \<not> strings_HasPrefix ref ''refs/tags/'' then
        Inl (Errorf ''ref %q is not a tag (expected refs/tags/...)'' [ref])
      else Inr (strings_TrimPrefix ref ''refs/tags/''))"

definition parseRepository :: "string \<Rightarrow> error + string \<times> string" where
  "parseRepository repo =
     (let parts = strings_Split repo CHR ''/''
      in if length parts \<noteq> 2 \<or> parts ! 0 = [] \<or> parts ! 1 = [] then
           Inl (Errorf ''invalid repository format %q (expected owner/repo)'' [repo])
         else Inr (parts ! 0, parts ! 1))"


section \<open>The remote client\<close>

text \<open>
  The structures of go-github that cross the interface, with the fields the program
  reads or writes. A \<^verbatim>\<open>*github.Response\<close> that is not nil carries the status code of
  the HTTP response it embeds, as go-github builds it; a nil pointer is \<open>None\<close>.
\<close>

record github_Reference =
  Ref :: string
  SHA :: string

record github_Response =
  StatusCode :: int

record github_CreateRef =
  Ref :: string
  SHA :: string

record github_UpdateRef =
  SHA :: string
  Force :: "bool option"

definition http_StatusNotFound :: int where
  "http_StatusNotFound = 404"

text \<open>
  \<^verbatim>\<open>type GitHubClient interface\<close>: three operations on a remote whose state \<open>'s\<close> is
  whatever the implementation keeps (the refs of the repositories, the network, a
  counter of a test double, the context that may be cancelled). An operation takes the
  state and returns the three results of the Go method with the new state. The context
  argument is handed through unchanged by the program and is part of that state.
\<close>

type_synonym result = "github_Reference option \<times> github_Response option \<times> error option"

record 's GitHubClient =
  GetRef :: "'s \<Rightarrow> string \<Rightarrow> string \<Rightarrow> string \<Rightarrow> result \<times> 's"
  CreateRef :: "'s \<Rightarrow> string \<Rightarrow> string \<Rightarrow> github_CreateRef \<Rightarrow> result \<times> 's"
  UpdateRef :: "'s \<Rightarrow> string \<Rightarrow> string \<Rightarrow> string \<Rightarrow> github_UpdateRef \<Rightarrow> result \<times> 's"

text \<open>
  What a run does besides returning: the calls it makes on the client and the records
  it hands to its logger, in the order of their occurrence. An attribute
  \<^verbatim>\<open>slog.String("error", err.Error())\<close> keeps the error whose text is logged.
\<close>

datatype call =
    GetRefCall string string string
  | CreateRefCall string string github_CreateRef
  | UpdateRefCall string string string github_UpdateRef

datatype Attr =
    slog_String string string
  | slog_Bool string bool
  | slog_Error string error

datatype Level = LevelDebug | LevelInfo | LevelError

datatype event = Log Level string "Attr list" | Call call

fun calls :: "event list \<Rightarrow> call list" where
  "calls [] = []"
| "calls (Call c # es) = c # calls es"
| "calls (Log l m as # es) = calls es"


section \<open>Reconciliation of one rolling tag\<close>

definition syncTag ::
  "'s GitHubClient \<Rightarrow> Config \<Rightarrow> string \<Rightarrow> string \<Rightarrow> string \<Rightarrow> 's \<Rightarrow>
     error option \<times> 's \<times> event list" where
  "syncTag client config owner repo tag s =
     (let refName = Sprintf ''tags/%s'' [tag];
          fullRefName = Sprintf ''refs/tags/%s'' [tag];
          checking =
            [Log LevelDebug ''Checking if tag exists''
               [slog_String ''tag'' tag, slog_String ''ref_name'' refName],
             Call (GetRefCall owner repo refName)];
          ((ref, resp, err), s1) = GetRef client s owner repo refName;
          tagExists = (err = None)
      in
      case (case err of
              None \<Rightarrow> None
            | Some e \<Rightarrow>
                (case resp of
                   None \<Rightarrow> Some e
                 | Some r \<Rightarrow> if StatusCode r \<noteq> http_StatusNotFound then Some e else None)) of
        Some e \<Rightarrow>
          (Some (Errorw ''failed to check if tag %s exists: %w'' [tag] e), s1,
           checking @
             [Log LevelError ''Failed to check if tag exists''
                [slog_String ''tag'' tag, slog_Error ''error'' e]])
      | None \<Rightarrow>
          (let checked = checking @
                 [if tagExists
                  then Log LevelDebug ''Tag already exists, will update'' [slog_String ''tag'' tag]
                  else Log LevelDebug ''Tag does not exist, will create'' [slog_String ''tag'' tag]]
           in
           if DryRun config then
             (None, s1,
              checked @
                [if tagExists
                 then Log LevelInfo ''[dry-run] Would update tag''
                        [slog_String ''tag'' tag, slog_String ''commit_sha'' (CommitSHA config)]
                 else Log LevelInfo ''[dry-run] Would create tag''
                        [slog_String ''tag'' tag, slog_String ''commit_sha'' (CommitSHA config)]])
           else if tagExists then
             (let updateRef = \<lparr>SHA = CommitSHA config, Force = Some True\<rparr>;
                  updating = checked @
                    [Log LevelInfo ''Updating tag''
                       [slog_String ''tag'' tag, slog_String ''commit_sha'' (CommitSHA config)],
                     Call (UpdateRefCall owner repo refName updateRef)];
                  ((ref2, resp2, err2), s2) = UpdateRef client s1 owner repo refName updateRef
              in case err2 of
                   Some e \<Rightarrow> (Some (Errorw ''failed to update tag %s: %w'' [tag] e), s2, updating)
                 | None \<Rightarrow>
                     (None, s2,
                      updating @
                        [Log LevelInfo ''Successfully updated tag'' [slog_String ''tag'' tag]]))
           else
             (let createRef = \<lparr>github_CreateRef.Ref = fullRefName, SHA = CommitSHA config\<rparr>;
                  creating = checked @
                    [Log LevelInfo ''Creating tag''
                       [slog_String ''tag'' tag, slog_String ''commit_sha'' (CommitSHA config)],
                     Call (CreateRefCall owner repo createRef)];
                  ((ref2, resp2, err2), s2) = CreateRef client s1 owner repo createRef
              in case err2 of
                   Some e \<Rightarrow> (Some (Errorw ''failed to create tag %s: %w'' [tag] e), s2, creating)
                 | None \<Rightarrow>
                     (None, s2,
                      creating @
                        [Log LevelInfo ''Successfully created tag'' [slog_String ''tag'' tag]]))))"


section \<open>The run\<close>

definition Run :: "'s GitHubClient \<Rightarrow> Config \<Rightarrow> 's \<Rightarrow> error option \<times> 's \<times> event list" where
  "Run client config s =
     (let starting =
            [Log LevelInfo ''Starting semver tag sync action''
               [slog_String ''repo'' (GitHubRepo config), slog_String ''ref'' (GitRef config),
                slog_Bool ''sync_major'' (SyncMajor config),
                slog_Bool ''sync_minor'' (SyncMinor config),
                slog_Bool ''skip_prereleases'' (SkipPrereleases config),
                slog_Bool ''dry_run'' (DryRun config)]]
      in
      case extractTagFromRef (GitRef config) of
        Inl err \<Rightarrow>
          (Some err, s,
           starting @
             [Log LevelError ''Failed to extract tag from ref''
                [slog_String ''ref'' (GitRef config), slog_Error ''error'' err]])
      | Inr tag \<Rightarrow>
          (let extracted = starting @
                 [Log LevelDebug ''Extracted tag from ref''
                    [slog_String ''tag'' tag, slog_String ''ref'' (GitRef config)]]
           in
           case ParseSemVer tag of
             Inl err \<Rightarrow>
               (Some err, s,
                extracted @
                  [Log LevelError ''Failed to parse semantic version''
                     [slog_String ''tag'' tag, slog_Error ''error'' err]])
           | Inr semver \<Rightarrow>
               (let parsed = extracted @
                      [Log LevelDebug ''Parsed semantic version''
                         [slog_String ''tag'' (Full semver), slog_String ''major'' (Major semver),
                          slog_String ''minor'' (Minor semver),
                          slog_String ''patch'' (Patch semver),
                          slog_Bool ''is_prerelease'' (IsPrerelease semver),
                          slog_String ''suffix'' (Suffix semver)]]
                in
                if IsPrerelease semver \<and> SkipPrereleases config then
                  (None, s,
                   parsed @
                     [Log LevelInfo ''Skipping prerelease tag''
                        [slog_String ''tag'' (Full semver),
                         slog_String ''suffix'' (Suffix semver)]])
                else
                  (let processing = parsed @
                         [Log LevelInfo ''Processing tag''
                            [slog_String ''tag'' (Full semver),
                             slog_String ''major'' (Major semver),
                             slog_String ''minor'' (Minor semver),
                             slog_String ''patch'' (Patch semver)]]
                   in
                   case parseRepository (GitHubRepo config) of
                     Inl err \<Rightarrow>
                       (Some err, s,
                        processing @
                          [Log LevelError ''Failed to parse repository''
                             [slog_String ''repo'' (GitHubRepo config),
                              slog_Error ''error'' err]])
                   | Inr (owner, repo) \<Rightarrow>
                       (let resolved = processing @
                              [Log LevelDebug ''Parsed repository''
                                 [slog_String ''owner'' owner, slog_String ''repo'' repo]];
                            (syncErrors1, s1, major_events) =
                              (if SyncMajor config then
                                 (let majorTag = MajorTag semver;
                                      syncing =
                                        [Log LevelDebug ''Syncing major version tag''
                                           [slog_String ''major_tag'' majorTag,
                                            slog_String ''commit_sha'' (CommitSHA config)]];
                                      (err, s', evs) =
                                        syncTag client config owner repo majorTag s
                                  in case err of
                                       Some e \<Rightarrow>
                                         ([] @
                                          [Errorw ''failed to sync major tag %s: %w'' [majorTag] e],
                                          s',
                                          syncing @ evs @
                                            [Log LevelError ''Failed to sync major tag''
                                               [slog_String ''tag'' majorTag,
                                                slog_Error ''error'' e]])
                                     | None \<Rightarrow> ([], s', syncing @ evs))
                               else ([], s, []));
                            (syncErrors2, s2, minor_events) =
                              (if SyncMinor config then
                                 (let minorTag = MinorTag semver;
                                      syncing =
                                        [Log LevelDebug ''Syncing minor version tag''
                                           [slog_String ''minor_tag'' minorTag,
                                            slog_String ''commit_sha'' (CommitSHA config)]];
                                      (err, s', evs) =
                                        syncTag client config owner repo minorTag s1
                                  in case err of
                                       Some e \<Rightarrow>
                                         (syncErrors1 @
                                          [Errorw ''failed to sync minor tag %s: %w'' [minorTag] e],
                                          s',
                                          syncing @ evs @
                                            [Log LevelError ''Failed to sync minor tag''
                                               [slog_String ''tag'' minorTag,
                                                slog_Error ''error'' e]])
                                     | None \<Rightarrow> (syncErrors1, s', syncing @ evs))
                               else (syncErrors1, s1, []))
                        in
                        if length syncErrors2 > 0 then
                          (errors_Join syncErrors2, s2, resolved @ major_events @ minor_events)
                        else
                          (None, s2,
                           resolved @ major_events @ minor_events @
                             [Log LevelInfo ''Semver tag sync completed successfully'' []]))))))"


section \<open>Example remotes\<close>

text \<open>
  The refs a remote holds: the commit of each ref that exists, by owner, repository and
  full ref name (\<^verbatim>\<open>refs/tags/v1\<close>).
\<close>

type_synonym refs = "string \<times> string \<times> string \<rightharpoonup> string"

text \<open>
  A remote that faithfully records what it is asked, seen through the refs \<open>view s\<close> of
  its state: a lookup changes no ref, succeeds for a ref that exists and answers 404
  with an error for one that does not; the creation of a ref that does not exist and the
  forced update of one that exists succeed and leave the ref at the commit given, all
  other refs as they were.
\<close>

definition faithful :: "'s GitHubClient \<Rightarrow> ('s \<Rightarrow> refs) \<Rightarrow> bool" where
  "faithful client view \<longleftrightarrow>
     (\<forall>s owner repo name.
        view (snd (GetRef client s owner repo name)) = view s \<and>
        (case view s (owner, repo, ''refs/'' @ name) of
           Some sha \<Rightarrow> snd (snd (fst (GetRef client s owner repo name))) = None
         | None \<Rightarrow>
             snd (snd (fst (GetRef client s owner repo name))) \<noteq> None \<and>
             fst (snd (fst (GetRef client s owner repo name))) =
               Some \<lparr>StatusCode = http_StatusNotFound\<rparr>)) \<and>
     (\<forall>s owner repo c.
        view s (owner, repo, github_CreateRef.Ref c) = None \<longrightarrow>
        snd (snd (fst (CreateRef client s owner repo c))) = None \<and>
        view (snd (CreateRef client s owner repo c)) =
          (view s)((owner, repo, github_CreateRef.Ref c) \<mapsto> github_CreateRef.SHA c)) \<and>
     (\<forall>s owner repo name u.
        view s (owner, repo, ''refs/'' @ name) \<noteq> None \<longrightarrow> Force u = Some True \<longrightarrow>
        snd (snd (fst (UpdateRef client s owner repo name u))) = None \<and>
        view (snd (UpdateRef client s owner repo name u)) =
          (view s)((owner, repo, ''refs/'' @ name) \<mapsto> github_UpdateRef.SHA u))"

text \<open>
  An in-memory remote whose state is its refs. It refuses with status 422 the creation
  of a ref that exists and the update of one that does not.
\<close>

definition memory_client :: "refs GitHubClient" where
  "memory_client =
     \<lparr>GetRef = (\<lambda>s owner repo name.
        case s (owner, repo, ''refs/'' @ name) of
          None \<Rightarrow>
            ((None, Some \<lparr>StatusCode = 404\<rparr>, Some (New ''404 Not Found'')), s)
        | Some sha \<Rightarrow>
            ((Some \<lparr>github_Reference.Ref = ''refs/'' @ name, SHA = sha\<rparr>,
              Some \<lparr>StatusCode = 200\<rparr>, None), s)),
      CreateRef = (\<lambda>s owner repo c.
        case s (owner, repo, github_CreateRef.Ref c) of
          Some sha \<Rightarrow>
            ((None, Some \<lparr>StatusCode = 422\<rparr>, Some (New ''422 Reference already exists'')), s)
        | None \<Rightarrow>
            ((Some \<lparr>github_Reference.Ref = github_CreateRef.Ref c, SHA = github_CreateRef.SHA c\<rparr>,
              Some \<lparr>StatusCode = 201\<rparr>, None),
             s((owner, repo, github_CreateRef.Ref c) \<mapsto> github_CreateRef.SHA c))),
      UpdateRef = (\<lambda>s owner repo name u.
        case s (owner, repo, ''refs/'' @ name) of
          None \<Rightarrow>
            ((None, Some \<lparr>StatusCode = 422\<rparr>, Some (New ''422 Reference does not exist'')), s)
        | Some sha \<Rightarrow>
            ((Some \<lparr>github_Reference.Ref = ''refs/'' @ name, SHA = github_UpdateRef.SHA u\<rparr>,
              Some \<lparr>StatusCode = 200\<rparr>, None),
             s((owner, repo, ''refs/'' @ name) \<mapsto> github_UpdateRef.SHA u)))\<rparr>"

text \<open>
  A remote reached with a cancelled context: every call fails with the error of the
  context and no response.
\<close>

definition canceled_client :: "unit GitHubClient" where
  "canceled_client =
     \<lparr>GetRef = (\<lambda>s owner repo name. ((None, None, Some context_Canceled), s)),
      CreateRef = (\<lambda>s owner repo c. ((None, None, Some context_Canceled), s)),
      UpdateRef = (\<lambda>s owner repo name u. ((None, None, Some context_Canceled), s))\<rparr>"

text \<open>
  A remote that answers every call with the same error: status \<open>code\<close>, or no response
  at all for \<open>None\<close>.
\<close>

definition failing_client :: "int option \<Rightarrow> error \<Rightarrow> unit GitHubClient" where
  "failing_client code e =
     \<lparr>GetRef = (\<lambda>s owner repo name.
        ((None, map_option (\<lambda>n. \<lparr>StatusCode = n\<rparr>) code, Some e), s)),
      CreateRef = (\<lambda>s owner repo c.
        ((None, map_option (\<lambda>n. \<lparr>StatusCode = n\<rparr>) code, Some e), s)),
      UpdateRef = (\<lambda>s owner repo name u.
        ((None, map_option (\<lambda>n. \<lparr>StatusCode = n\<rparr>) code, Some e), s))\<rparr>"

text \<open>
  A remote whose state counts the calls it has answered. It fails the first call with
  status 500; from then on it finds no ref and accepts every creation and update.
\<close>

definition flaky_client :: "nat GitHubClient" where
  "flaky_client =
     \<lparr>GetRef = (\<lambda>n owner repo name.
        if n = 0 then
          ((None, Some \<lparr>StatusCode = 500\<rparr>, Some (New ''500 Internal Server Error'')), Suc n)
        else ((None, Some \<lparr>StatusCode = 404\<rparr>, Some (New ''404 Not Found'')), Suc n)),
      CreateRef = (\<lambda>n owner repo c.
        if n = 0 then
          ((None, Some \<lparr>StatusCode = 500\<rparr>, Some (New ''500 Internal Server Error'')), Suc n)
        else
          ((Some \<lparr>github_Reference.Ref = github_CreateRef.Ref c,
                  SHA = github_CreateRef.SHA c\<rparr>,
            Some \<lparr>StatusCode = 201\<rparr>, None), Suc n)),
      UpdateRef = (\<lambda>n owner repo name u.
        if n = 0 then
          ((None, Some \<lparr>StatusCode = 500\<rparr>, Some (New ''500 Internal Server Error'')), Suc n)
        else
          ((Some \<lparr>github_Reference.Ref = ''refs/'' @ name, SHA = github_UpdateRef.SHA u\<rparr>,
            Some \<lparr>StatusCode = 200\<rparr>, None), Suc n))\<rparr>"

definition example_config :: Config where
  "example_config =
     \<lparr>GitHubToken = ''token'', GitHubRepo = ''owner/repo'', GitRef = ''refs/tags/v1.2.3'',
      CommitSHA = ''abc123'', SyncMajor = True, SyncMinor = True, SkipPrereleases = True,
      DryRun = False, GitHubEnterpriseURL = [], LogLevel = ''info''\<rparr>"


section \<open>Properties of the parser\<close>

lemma not_digit_chars [simp]:
  "\<not> is_digit CHR ''.''" "\<not> is_digit CHR ''-''" "\<not> is_digit CHR ''+''"
  by (simp_all add: is_digit_def)

lemma match_digits_append:
  assumes "digit_string d" and "r = [] \<or> \<not> is_digit (hd r)"
  shows "match_digits (d @ r) = Some (d, r)"
proof -
  have all: "\<forall>c\<in>set d. is_digit c" and ne: "d \<noteq> []"
    using assms(1) by (simp_all add: digit_string_def list_all_iff)
  have stop: "takeWhile is_digit r = []" "dropWhile is_digit r = r"
    using assms(2) by (cases r; simp)+
  have "takeWhile is_digit (d @ r) = d" "dropWhile is_digit (d @ r) = r"
    using all stop by simp_all
  then show ?thesis using ne by (simp add: match_digits_def)
qed

lemma match_digits_Some:
  assumes "match_digits s = Some (d, r)"
  shows "s = d @ r" and "digit_string d" and "r = [] \<or> \<not> is_digit (hd r)"
proof -
  from assms have d: "d = takeWhile is_digit s" and r: "r = dropWhile is_digit s"
    and ne: "d \<noteq> []"
    by (auto simp: match_digits_def Let_def split: if_splits)
  show "s = d @ r" by (simp add: d r)
  show "digit_string d"
    using ne by (auto simp: d digit_string_def list_all_iff dest: set_takeWhileD)
  show "r = [] \<or> \<not> is_digit (hd r)" unfolding r
    by (cases "dropWhile is_digit s = []") (auto simp: hd_dropWhile)
qed

lemma match_char_Some: "match_char c s = Some r \<longleftrightarrow> s = c # r"
  by (auto simp: match_char_def split: list.splits)

lemma match_char_Cons: "match_char c (x # r) = (if x = c then Some r else None)"
  by (simp add: match_char_def)

lemma match_suffix_Some:
  "match_suffix s = Some x \<longleftrightarrow> x = s \<and> spec_suffix s \<and> line_feed \<notin> set s"
  by (cases s) (auto simp: match_suffix_def spec_suffix_def line_feed_def)

lemma spec_suffix_stop: "spec_suffix x \<Longrightarrow> x = [] \<or> \<not> is_digit (hd x)"
  by (auto simp: spec_suffix_def)

lemma FindStringSubmatch_spec_form:
  assumes "spec_form tag a b c x" and "line_feed \<notin> set x"
  shows "semverRegex_FindStringSubmatch tag = Some [tag, a, b, c, x]"
proof -
  from assms(1) have tag: "tag = CHR ''v'' # a @ CHR ''.'' # b @ CHR ''.'' # c @ x"
    and a: "digit_string a" and b: "digit_string b" and c: "digit_string c"
    and x: "spec_suffix x"
    by (simp_all add: spec_form_def)
  have m1: "match_digits (a @ CHR ''.'' # b @ CHR ''.'' # c @ x) =
      Some (a, CHR ''.'' # b @ CHR ''.'' # c @ x)"
    by (rule match_digits_append [OF a]) simp
  have m2: "match_digits (b @ CHR ''.'' # c @ x) = Some (b, CHR ''.'' # c @ x)"
    by (rule match_digits_append [OF b]) simp
  have m3: "match_digits (c @ x) = Some (c, x)"
    by (rule match_digits_append [OF c]) (rule spec_suffix_stop [OF x])
  have m4: "match_suffix x = Some x"
    using x assms(2) by (simp add: match_suffix_Some)
  have m0: "match_char CHR ''v'' tag = Some (a @ CHR ''.'' # b @ CHR ''.'' # c @ x)"
    by (simp add: tag match_char_def)
  show ?thesis
    unfolding semverRegex_FindStringSubmatch_def
    by (simp add: m0 m1 m2 m3 m4 match_char_Cons)
qed

lemma FindStringSubmatch_Some:
  assumes "semverRegex_FindStringSubmatch tag = Some m"
  shows "\<exists>a b c x. m = [tag, a, b, c, x] \<and> spec_form tag a b c x \<and> line_feed \<notin> set x"
proof -
  from assms obtain r0 a r1 r2 b r3 r4 c r5 x where
    s0: "match_char CHR ''v'' tag = Some r0" and s1: "match_digits r0 = Some (a, r1)"
    and s2: "match_char CHR ''.'' r1 = Some r2" and s3: "match_digits r2 = Some (b, r3)"
    and s4: "match_char CHR ''.'' r3 = Some r4" and s5: "match_digits r4 = Some (c, r5)"
    and s6: "match_suffix r5 = Some x" and m: "m = [tag, a, b, c, x]"
    unfolding semverRegex_FindStringSubmatch_def
    by (auto simp: bind_eq_Some_conv)
  from s6 have x: "x = r5" "spec_suffix x" "line_feed \<notin> set x"
    by (simp_all add: match_suffix_Some)
  have "tag = ''v'' @ a @ ''.'' @ b @ ''.'' @ c @ x"
    using s0 s2 s4 match_digits_Some(1) [OF s1] match_digits_Some(1) [OF s3]
      match_digits_Some(1) [OF s5] x(1)
    by (simp add: match_char_Some)
  then have "spec_form tag a b c x"
    using match_digits_Some(2) [OF s1] match_digits_Some(2) [OF s3]
      match_digits_Some(2) [OF s5] x(2)
    by (simp add: spec_form_def)
  with m x(3) show ?thesis by blast
qed

lemma HasPrefix_minus: "strings_HasPrefix x ''-'' \<longleftrightarrow> x \<noteq> [] \<and> hd x = CHR ''-''"
  by (cases x) (simp_all add: strings_HasPrefix_def)

lemma ParseSemVer_Inr:
  "ParseSemVer tag = Inr sv \<longleftrightarrow>
     (\<exists>a b c x. spec_form tag a b c x \<and> line_feed \<notin> set x \<and>
        sv = \<lparr>Major = a, Minor = b, Patch = c, Suffix = x, Full = tag,
              IsPrerelease = (x \<noteq> [] \<and> hd x = CHR ''-'')\<rparr>)"
proof
  assume "ParseSemVer tag = Inr sv"
  then obtain m where m: "semverRegex_FindStringSubmatch tag = Some m"
    and sv: "sv = \<lparr>Major = m ! 1, Minor = m ! 2, Patch = m ! 3,
                    Suffix = (if length m > 4 then m ! 4 else []), Full = tag,
                    IsPrerelease =
                      strings_HasPrefix (if length m > 4 then m ! 4 else []) ''-''\<rparr>"
    by (auto simp: ParseSemVer_def Let_def split: option.splits)
  from FindStringSubmatch_Some [OF m] obtain a b c x where
    "m = [tag, a, b, c, x]" "spec_form tag a b c x" "line_feed \<notin> set x"
    by blast
  then show "\<exists>a b c x. spec_form tag a b c x \<and> line_feed \<notin> set x \<and>
        sv = \<lparr>Major = a, Minor = b, Patch = c, Suffix = x, Full = tag,
              IsPrerelease = (x \<noteq> [] \<and> hd x = CHR ''-'')\<rparr>"
    using sv by (auto simp: HasPrefix_minus)
next
  assume "\<exists>a b c x. spec_form tag a b c x \<and> line_feed \<notin> set x \<and>
        sv = \<lparr>Major = a, Minor = b, Patch = c, Suffix = x, Full = tag,
              IsPrerelease = (x \<noteq> [] \<and> hd x = CHR ''-'')\<rparr>"
  then obtain a b c x where f: "spec_form tag a b c x" "line_feed \<notin> set x"
    and sv: "sv = \<lparr>Major = a, Minor = b, Patch = c, Suffix = x, Full = tag,
              IsPrerelease = (x \<noteq> [] \<and> hd x = CHR ''-'')\<rparr>"
    by blast
  show "ParseSemVer tag = Inr sv"
    by (simp add: ParseSemVer_def FindStringSubmatch_spec_form [OF f] sv HasPrefix_minus)
qed

lemma ParseSemVer_Inl:
  "ParseSemVer tag = Inl e \<longleftrightarrow>
     e = Errorf ''tag %q does not match semantic versioning format (expected vX.Y.Z)'' [tag] \<and>
     \<not> (\<exists>a b c x. spec_form tag a b c x \<and> line_feed \<notin> set x)"
proof (cases "ParseSemVer tag")
  case (Inl e')
  then have e': "e' =
      Errorf ''tag %q does not match semantic versioning format (expected vX.Y.Z)'' [tag]"
    by (auto simp: ParseSemVer_def Let_def split: option.splits)
  have "\<not> (\<exists>a b c x. spec_form tag a b c x \<and> line_feed \<notin> set x)"
  proof
    assume "\<exists>a b c x. spec_form tag a b c x \<and> line_feed \<notin> set x"
    then have "\<exists>sv. ParseSemVer tag = Inr sv" unfolding ParseSemVer_Inr by blast
    with Inl show False by simp
  qed
  with Inl e' show ?thesis by auto
next
  case (Inr sv)
  then show ?thesis using ParseSemVer_Inr [of tag sv] by auto
qed

lemma digits_prefix_unique:
  assumes "digit_string d" and "digit_string d'"
    and "r = [] \<or> \<not> is_digit (hd r)" and "r' = [] \<or> \<not> is_digit (hd r')"
    and "d @ r = d' @ r'"
  shows "d = d' \<and> r = r'"
proof -
  have "match_digits (d @ r) = Some (d, r)"
    using assms(1,3) by (rule match_digits_append)
  then have "match_digits (d' @ r') = Some (d, r)"
    by (simp only: assms(5))
  moreover have "match_digits (d' @ r') = Some (d', r')"
    using assms(2,4) by (rule match_digits_append)
  ultimately have "Some (d, r) = Some (d', r')"
    by (rule trans [OF sym])
  then show ?thesis by simp
qed

lemma spec_form_unique:
  assumes "spec_form tag a b c x" and "spec_form tag a' b' c' x'"
  shows "a = a' \<and> b = b' \<and> c = c' \<and> x = x'"
proof -
  from assms have eq: "a @ CHR ''.'' # b @ CHR ''.'' # c @ x = a' @ CHR ''.'' # b' @ CHR ''.'' # c' @ x'"
    and d: "digit_string a" "digit_string b" "digit_string c"
      "digit_string a'" "digit_string b'" "digit_string c'"
    and sx: "spec_suffix x" "spec_suffix x'"
    by (simp_all add: spec_form_def)
  have 1: "a = a' \<and> CHR ''.'' # b @ CHR ''.'' # c @ x = CHR ''.'' # b' @ CHR ''.'' # c' @ x'"
    using d(1,4) _ _ eq by (rule digits_prefix_unique) simp_all
  then have 2: "b = b' \<and> CHR ''.'' # c @ x = CHR ''.'' # c' @ x'"
    using digits_prefix_unique [OF d(2,5), of "CHR ''.'' # c @ x" "CHR ''.'' # c' @ x'"]
    by simp
  then have 3: "c = c' \<and> x = x'"
    using digits_prefix_unique [OF d(3,6) spec_suffix_stop [OF sx(1)] spec_suffix_stop [OF sx(2)]]
    by simp
  from 1 2 3 show ?thesis by simp
qed

lemmas parser_defs =
  ParseSemVer_def semverRegex_FindStringSubmatch_def match_char_def match_digits_def
  match_suffix_def is_digit_def line_feed_def strings_HasPrefix_def Let_def


section \<open>Claims about the parser\<close>

text \<open>
  C3, as the code has it. \<open>ParseSemVer\<close> succeeds exactly for the tags made of a lowercase
  \<open>v\<close>, three non-empty runs of decimal digits of any length separated by dots, and an
  optional suffix that starts with \<open>-\<close> or \<open>+\<close> and holds no line feed, from the
  first to the last character; the three runs are returned as they stand. Every other
  tag gives the format error and no value: among them \<open>1.2.3\<close>, \<open>v1.2\<close>, \<open>v1\<close>, the
  empty tag and \<open>v1.2.abc\<close>. The tag \<open>v01.02.03\<close> is accepted with the components
  \<open>01\<close>, \<open>02\<close>, \<open>03\<close>, and a major component of any number of nines is accepted
  unchanged.
\<close>

theorem ParseSemVer_accepts_exactly:
  "(ParseSemVer tag = Inr sv \<longleftrightarrow>
      (\<exists>a b c x. spec_form tag a b c x \<and> line_feed \<notin> set x \<and>
         sv = \<lparr>Major = a, Minor = b, Patch = c, Suffix = x, Full = tag,
               IsPrerelease = (x \<noteq> [] \<and> hd x = CHR ''-'')\<rparr>)) \<and>
   (ParseSemVer tag = Inl e \<longleftrightarrow>
      e = Errorf ''tag %q does not match semantic versioning format (expected vX.Y.Z)'' [tag] \<and>
      \<not> (\<exists>a b c x. spec_form tag a b c x \<and> line_feed \<notin> set x)) \<and>
   isl (ParseSemVer ''1.2.3'') \<and> isl (ParseSemVer ''v1.2'') \<and> isl (ParseSemVer ''v1'') \<and>
   isl (ParseSemVer []) \<and> isl (ParseSemVer ''v1.2.abc'') \<and>
   ParseSemVer ''v01.02.03'' =
     Inr \<lparr>Major = ''01'', Minor = ''02'', Patch = ''03'', Suffix = [],
          Full = ''v01.02.03'', IsPrerelease = False\<rparr> \<and>
   ParseSemVer (''v'' @ replicate (Suc n) CHR ''9'' @ ''.0.0'') =
     Inr \<lparr>Major = replicate (Suc n) CHR ''9'', Minor = ''0'', Patch = ''0'', Suffix = [],
          Full = ''v'' @ replicate (Suc n) CHR ''9'' @ ''.0.0'', IsPrerelease = False\<rparr>"
proof -
  have rejected: "isl (ParseSemVer ''1.2.3'')" "isl (ParseSemVer ''v1.2'')"
    "isl (ParseSemVer ''v1'')" "isl (ParseSemVer [])" "isl (ParseSemVer ''v1.2.abc'')"
    by (simp_all add: parser_defs)
  have zeros: "ParseSemVer ''v01.02.03'' =
     Inr \<lparr>Major = ''01'', Minor = ''02'', Patch = ''03'', Suffix = [],
          Full = ''v01.02.03'', IsPrerelease = False\<rparr>"
    by (simp add: parser_defs)
  have nines: "ParseSemVer (''v'' @ replicate (Suc n) CHR ''9'' @ ''.0.0'') =
     Inr \<lparr>Major = replicate (Suc n) CHR ''9'', Minor = ''0'', Patch = ''0'', Suffix = [],
          Full = ''v'' @ replicate (Suc n) CHR ''9'' @ ''.0.0'', IsPrerelease = False\<rparr>"
    unfolding ParseSemVer_Inr
    by (simp add: spec_form_def digit_string_def is_digit_def spec_suffix_def list_all_iff)
  show ?thesis
    using ParseSemVer_Inr [of tag sv] ParseSemVer_Inl [of tag e] rejected zeros nines
    by blast
qed

theorem ParseSemVer_accepts_exactly_witness:
  "ParseSemVer ''v1.2.3-beta'' =
     Inr \<lparr>Major = ''1'', Minor = ''2'', Patch = ''3'', Suffix = ''-beta'',
          Full = ''v1.2.3-beta'', IsPrerelease = True\<rparr> \<and>
   spec_form ''v1.2.3-beta'' ''1'' ''2'' ''3'' ''-beta'' \<and> line_feed \<notin> set ''-beta''"
proof -
  have form: "spec_form ''v1.2.3-beta'' ''1'' ''2'' ''3'' ''-beta''"
    by (simp add: spec_form_def digit_string_def is_digit_def spec_suffix_def)
  have lf: "line_feed \<notin> set ''-beta''"
    by (simp add: line_feed_def)
  from form lf show ?thesis
    using ParseSemVer_accepts_exactly
      [of "''v1.2.3-beta''"
          "\<lparr>Major = ''1'', Minor = ''2'', Patch = ''3'', Suffix = ''-beta'',
            Full = ''v1.2.3-beta'', IsPrerelease = True\<rparr>"]
    by auto
qed

text \<open>
  C3 as stated fails: the tag \<open>v1.2.3-a\<close>, line feed, \<open>b\<close> has the form the claim
  describes (its suffix starts with \<open>-\<close>), and \<open>ParseSemVer\<close> rejects it.
\<close>

theorem ParseSemVer_line_feed_counterexample:
  "spec_form (''v1.2.3-a'' @ [CHR 0x0A] @ ''b'') ''1'' ''2'' ''3'' (''-a'' @ [CHR 0x0A] @ ''b'') \<and>
   ParseSemVer (''v1.2.3-a'' @ [CHR 0x0A] @ ''b'') =
     Inl (Errorf ''tag %q does not match semantic versioning format (expected vX.Y.Z)''
            [''v1.2.3-a'' @ [CHR 0x0A] @ ''b''])"
  by (simp add: parser_defs spec_form_def digit_string_def spec_suffix_def)

text \<open>
  C4. For every accepted tag, the tag is \<open>v\<close>, the three digit runs with their dots, and
  then the suffix: the suffix is all that follows the patch digits, up to the end of the
  tag, and it is empty or starts with \<open>-\<close> or \<open>+\<close>. No other reading of the tag in the
  grammar exists, so nothing inside the suffix is parsed. \<open>IsPrerelease\<close> holds exactly
  when the suffix is not empty and starts with \<open>-\<close>; it is false for a suffix that
  starts with \<open>+\<close>.
\<close>

theorem ParseSemVer_suffix:
  assumes "ParseSemVer tag = Inr sv"
  shows "tag = ''v'' @ Major sv @ ''.'' @ Minor sv @ ''.'' @ Patch sv @ Suffix sv \<and>
    digit_string (Major sv) \<and> digit_string (Minor sv) \<and> digit_string (Patch sv) \<and>
    (Suffix sv = [] \<or> hd (Suffix sv) = CHR ''-'' \<or> hd (Suffix sv) = CHR ''+'') \<and>
    (\<forall>a b c x. spec_form tag a b c x \<longrightarrow>
       a = Major sv \<and> b = Minor sv \<and> c = Patch sv \<and> x = Suffix sv) \<and>
    (IsPrerelease sv \<longleftrightarrow> Suffix sv \<noteq> [] \<and> hd (Suffix sv) = CHR ''-'') \<and>
    (Suffix sv \<noteq> [] \<and> hd (Suffix sv) = CHR ''+'' \<longrightarrow> \<not> IsPrerelease sv)"
proof -
  from assms obtain a b c x where form: "spec_form tag a b c x"
    and sv: "sv = \<lparr>Major = a, Minor = b, Patch = c, Suffix = x, Full = tag,
              IsPrerelease = (x \<noteq> [] \<and> hd x = CHR ''-'')\<rparr>"
    unfolding ParseSemVer_Inr by blast
  have unique: "\<forall>a' b' c' x'. spec_form tag a' b' c' x' \<longrightarrow>
       a' = Major sv \<and> b' = Minor sv \<and> c' = Patch sv \<and> x' = Suffix sv"
    using spec_form_unique [OF _ form] by (simp add: sv)
  from form have "tag = ''v'' @ a @ ''.'' @ b @ ''.'' @ c @ x"
    and "digit_string a" "digit_string b" "digit_string c"
    and "x = [] \<or> hd x = CHR ''-'' \<or> hd x = CHR ''+''"
    by (simp_all add: spec_form_def spec_suffix_def)
  with unique show ?thesis by (simp add: sv)
qed

theorem ParseSemVer_suffix_witness:
  "ParseSemVer ''v1.2.3-pre+build.1'' =
     Inr \<lparr>Major = ''1'', Minor = ''2'', Patch = ''3'', Suffix = ''-pre+build.1'',
          Full = ''v1.2.3-pre+build.1'', IsPrerelease = True\<rparr> \<and>
   ''v1.2.3-pre+build.1'' = ''v'' @ ''1'' @ ''.'' @ ''2'' @ ''.'' @ ''3'' @ ''-pre+build.1''"
proof -
  have p: "ParseSemVer ''v1.2.3-pre+build.1'' =
     Inr \<lparr>Major = ''1'', Minor = ''2'', Patch = ''3'', Suffix = ''-pre+build.1'',
          Full = ''v1.2.3-pre+build.1'', IsPrerelease = True\<rparr>"
    by (simp add: parser_defs)
  show ?thesis using p ParseSemVer_suffix [OF p] by simp
qed

text \<open>
  C9. For every accepted tag, \<open>MajorTag\<close> is \<open>v\<close> followed by the major digits and
  \<open>MinorTag\<close> is \<open>v\<close>, the major digits, a dot and the minor digits, where the major
  digits are the digits that follow the \<open>v\<close> of the tag and the minor digits those after
  the first dot: the tag is \<open>MinorTag\<close>, a dot, the patch digits and the suffix. Neither
  name depends on the patch component or on the suffix.
\<close>

theorem rolling_tag_names:
  assumes "ParseSemVer tag = Inr sv"
  shows "MajorTag sv = ''v'' @ Major sv \<and>
    MinorTag sv = ''v'' @ Major sv @ ''.'' @ Minor sv \<and>
    digit_string (Major sv) \<and> digit_string (Minor sv) \<and>
    Major sv = takeWhile is_digit (tl tag) \<and>
    tag = MinorTag sv @ ''.'' @ Patch sv @ Suffix sv \<and>
    MajorTag (sv\<lparr>Patch := p, Suffix := x\<rparr>) = MajorTag sv \<and>
    MinorTag (sv\<lparr>Patch := p, Suffix := x\<rparr>) = MinorTag sv"
proof -
  from assms obtain a b c y where form: "spec_form tag a b c y"
    and sv: "sv = \<lparr>Major = a, Minor = b, Patch = c, Suffix = y, Full = tag,
              IsPrerelease = (y \<noteq> [] \<and> hd y = CHR ''-'')\<rparr>"
    unfolding ParseSemVer_Inr by blast
  from form have tag: "tag = CHR ''v'' # a @ CHR ''.'' # b @ CHR ''.'' # c @ y"
    and d: "digit_string a" "digit_string b"
    by (simp_all add: spec_form_def)
  have "match_digits (a @ CHR ''.'' # b @ CHR ''.'' # c @ y) =
      Some (a, CHR ''.'' # b @ CHR ''.'' # c @ y)"
    by (rule match_digits_append [OF d(1)]) simp
  then have "takeWhile is_digit (tl tag) = a"
    by (simp add: tag match_digits_def Let_def split: if_splits)
  with tag d show ?thesis
    by (simp add: sv MajorTag_def MinorTag_def)
qed

theorem rolling_tag_names_witness:
  "ParseSemVer ''v10.20.30'' =
     Inr \<lparr>Major = ''10'', Minor = ''20'', Patch = ''30'', Suffix = [],
          Full = ''v10.20.30'', IsPrerelease = False\<rparr> \<and>
   MajorTag \<lparr>Major = ''10'', Minor = ''20'', Patch = ''30'', Suffix = [],
          Full = ''v10.20.30'', IsPrerelease = False\<rparr> = ''v10'' \<and>
   MinorTag \<lparr>Major = ''10'', Minor = ''20'', Patch = ''30'', Suffix = [],
          Full = ''v10.20.30'', IsPrerelease = False\<rparr> = ''v10.20''"
proof -
  have p: "ParseSemVer ''v10.20.30'' =
     Inr \<lparr>Major = ''10'', Minor = ''20'', Patch = ''30'', Suffix = [],
          Full = ''v10.20.30'', IsPrerelease = False\<rparr>"
    by (simp add: parser_defs)
  note r = rolling_tag_names [OF p]
  have a: "MajorTag \<lparr>Major = ''10'', Minor = ''20'', Patch = ''30'', Suffix = [],
          Full = ''v10.20.30'', IsPrerelease = False\<rparr> =
      ''v'' @ Major \<lparr>Major = ''10'', Minor = ''20'', Patch = ''30'', Suffix = [],
          Full = ''v10.20.30'', IsPrerelease = False\<rparr>"
    by (rule r [THEN conjunct1])
  have b: "MinorTag \<lparr>Major = ''10'', Minor = ''20'', Patch = ''30'', Suffix = [],
          Full = ''v10.20.30'', IsPrerelease = False\<rparr> =
      ''v'' @ Major \<lparr>Major = ''10'', Minor = ''20'', Patch = ''30'', Suffix = [],
          Full = ''v10.20.30'', IsPrerelease = False\<rparr> @ ''.'' @
      Minor \<lparr>Major = ''10'', Minor = ''20'', Patch = ''30'', Suffix = [],
          Full = ''v10.20.30'', IsPrerelease = False\<rparr>"
    by (rule r [THEN conjunct2, THEN conjunct1])
  show ?thesis using p a b by simp
qed

section \<open>Properties of reconciliation and of the run\<close>

lemma Sprintf_tags: "Sprintf ''tags/%s'' [t] = ''tags/'' @ t"
  by simp

lemma Sprintf_refs_tags: "Sprintf ''refs/tags/%s'' [t] = ''refs/tags/'' @ t"
  by simp

lemma calls_append: "calls (xs @ ys) = calls xs @ calls ys"
  by (induction xs rule: calls.induct) simp_all

lemma syncTag_fatal:
  assumes "GetRef client s owner repo (''tags/'' @ tag) = ((ref, resp, Some e), s1)"
    and "resp = None \<or> (\<exists>r. resp = Some r \<and> StatusCode r \<noteq> http_StatusNotFound)"
  shows "syncTag client config owner repo tag s =
    (Some (Errorw ''failed to check if tag %s exists: %w'' [tag] e), s1,
     [Log LevelDebug ''Checking if tag exists''
        [slog_String ''tag'' tag, slog_String ''ref_name'' (''tags/'' @ tag)],
      Call (GetRefCall owner repo (''tags/'' @ tag)),
      Log LevelError ''Failed to check if tag exists''
        [slog_String ''tag'' tag, slog_Error ''error'' e]])"
  using assms by (auto simp: syncTag_def Let_def Sprintf_tags Sprintf_refs_tags)

lemma syncTag_dry_absent:
  assumes "GetRef client s owner repo (''tags/'' @ tag) = ((ref, Some r, Some e), s1)"
    and "StatusCode r = http_StatusNotFound" and "DryRun config"
  shows "syncTag client config owner repo tag s =
    (None, s1,
     [Log LevelDebug ''Checking if tag exists''
        [slog_String ''tag'' tag, slog_String ''ref_name'' (''tags/'' @ tag)],
      Call (GetRefCall owner repo (''tags/'' @ tag)),
      Log LevelDebug ''Tag does not exist, will create'' [slog_String ''tag'' tag],
      Log LevelInfo ''[dry-run] Would create tag''
        [slog_String ''tag'' tag, slog_String ''commit_sha'' (CommitSHA config)]])"
  using assms by (simp add: syncTag_def Let_def Sprintf_tags Sprintf_refs_tags)

lemma syncTag_dry_present:
  assumes "GetRef client s owner repo (''tags/'' @ tag) = ((ref, resp, None), s1)"
    and "DryRun config"
  shows "syncTag client config owner repo tag s =
    (None, s1,
     [Log LevelDebug ''Checking if tag exists''
        [slog_String ''tag'' tag, slog_String ''ref_name'' (''tags/'' @ tag)],
      Call (GetRefCall owner repo (''tags/'' @ tag)),
      Log LevelDebug ''Tag already exists, will update'' [slog_String ''tag'' tag],
      Log LevelInfo ''[dry-run] Would update tag''
        [slog_String ''tag'' tag, slog_String ''commit_sha'' (CommitSHA config)]])"
  using assms by (simp add: syncTag_def Let_def Sprintf_tags Sprintf_refs_tags)

lemma syncTag_create:
  assumes "GetRef client s owner repo (''tags/'' @ tag) = ((ref, Some r, Some e), s1)"
    and "StatusCode r = http_StatusNotFound" and "\<not> DryRun config"
    and "CreateRef client s1 owner repo
           \<lparr>github_CreateRef.Ref = ''refs/tags/'' @ tag, SHA = CommitSHA config\<rparr> =
         ((ref2, resp2, err2), s2)"
  shows "fst (syncTag client config owner repo tag s) =
      map_option (Errorw ''failed to create tag %s: %w'' [tag]) err2"
    and "fst (snd (syncTag client config owner repo tag s)) = s2"
    and "calls (snd (snd (syncTag client config owner repo tag s))) =
      [GetRefCall owner repo (''tags/'' @ tag),
       CreateRefCall owner repo
         \<lparr>github_CreateRef.Ref = ''refs/tags/'' @ tag, SHA = CommitSHA config\<rparr>]"
  using assms
  by (simp_all add: syncTag_def Let_def Sprintf_tags Sprintf_refs_tags split: option.splits)

lemma syncTag_update:
  assumes "GetRef client s owner repo (''tags/'' @ tag) = ((ref, resp, None), s1)"
    and "\<not> DryRun config"
    and "UpdateRef client s1 owner repo (''tags/'' @ tag)
           \<lparr>SHA = CommitSHA config, Force = Some True\<rparr> =
         ((ref2, resp2, err2), s2)"
  shows "fst (syncTag client config owner repo tag s) =
      map_option (Errorw ''failed to update tag %s: %w'' [tag]) err2"
    and "fst (snd (syncTag client config owner repo tag s)) = s2"
    and "calls (snd (snd (syncTag client config owner repo tag s))) =
      [GetRefCall owner repo (''tags/'' @ tag),
       UpdateRefCall owner repo (''tags/'' @ tag)
         \<lparr>SHA = CommitSHA config, Force = Some True\<rparr>]"
  using assms
  by (simp_all add: syncTag_def Let_def Sprintf_tags Sprintf_refs_tags split: option.splits)

lemma syncTag_probes_first:
  "\<exists>cs. calls (snd (snd (syncTag client config owner repo tag s))) =
     GetRefCall owner repo (''tags/'' @ tag) # cs"
  by (simp add: syncTag_def Let_def Sprintf_tags Sprintf_refs_tags calls_append
      split: prod.splits option.splits)


lemma Run_both:
  assumes "extractTagFromRef (GitRef config) = Inr tag"
    and "ParseSemVer tag = Inr semver"
    and "\<not> (IsPrerelease semver \<and> SkipPrereleases config)"
    and "parseRepository (GitHubRepo config) = Inr (owner, repo)"
    and "SyncMajor config" and "SyncMinor config"
    and "syncTag client config owner repo (MajorTag semver) s = (r1, s1, ev1)"
    and "syncTag client config owner repo (MinorTag semver) s1 = (r2, s2, ev2)"
  shows "fst (Run client config s) =
      errors_Join
        ((case r1 of None \<Rightarrow> []
          | Some e \<Rightarrow> [Errorw ''failed to sync major tag %s: %w'' [MajorTag semver] e]) @
         (case r2 of None \<Rightarrow> []
          | Some e \<Rightarrow> [Errorw ''failed to sync minor tag %s: %w'' [MinorTag semver] e]))"
    and "fst (snd (Run client config s)) = s2"
    and "calls (snd (snd (Run client config s))) = calls ev1 @ calls ev2"
  using assms
  by (auto simp: Run_def Let_def calls_append errors_Join_def split: option.splits)

lemma Run_skip:
  assumes "extractTagFromRef (GitRef config) = Inr tag"
    and "ParseSemVer tag = Inr semver"
    and "IsPrerelease semver" and "SkipPrereleases config"
  shows "fst (Run client config s) = None"
    and "fst (snd (Run client config s)) = s"
    and "calls (snd (snd (Run client config s))) = []"
  using assms by (simp_all add: Run_def Let_def)

lemma memory_client_faithful: "faithful memory_client (\<lambda>s. s)"
  by (auto simp: faithful_def memory_client_def http_StatusNotFound_def split: option.splits)

lemma refs_tags: "''refs/'' @ ''tags/'' @ tag = ''refs/tags/'' @ tag"
  by simp

lemma faithful_syncTag:
  assumes f: "faithful client view" and real: "\<not> DryRun config"
  shows "fst (syncTag client config owner repo tag s) = None"
    and "view (fst (snd (syncTag client config owner repo tag s))) =
      (view s)((owner, repo, ''refs/tags/'' @ tag) \<mapsto> CommitSHA config)"
    and "calls (snd (snd (syncTag client config owner repo tag s))) =
      [GetRefCall owner repo (''tags/'' @ tag),
       if view s (owner, repo, ''refs/tags/'' @ tag) = None
       then CreateRefCall owner repo
              \<lparr>github_CreateRef.Ref = ''refs/tags/'' @ tag, SHA = CommitSHA config\<rparr>
       else UpdateRefCall owner repo (''tags/'' @ tag)
              \<lparr>SHA = CommitSHA config, Force = Some True\<rparr>]"
proof -
  obtain ref resp err s1 where
    g: "GetRef client s owner repo (''tags/'' @ tag) = ((ref, resp, err), s1)"
    by (metis prod.exhaust)
  from f have g_view: "view s1 = view s"
    and g_res: "case view s (owner, repo, ''refs/tags/'' @ tag) of
        Some sha \<Rightarrow> err = None
      | None \<Rightarrow> err \<noteq> None \<and> resp = Some \<lparr>StatusCode = http_StatusNotFound\<rparr>"
    unfolding faithful_def
    using g by (metis fst_conv snd_conv refs_tags)+
  have "fst (syncTag client config owner repo tag s) = None \<and>
    view (fst (snd (syncTag client config owner repo tag s))) =
      (view s)((owner, repo, ''refs/tags/'' @ tag) \<mapsto> CommitSHA config) \<and>
    calls (snd (snd (syncTag client config owner repo tag s))) =
      [GetRefCall owner repo (''tags/'' @ tag),
       if view s (owner, repo, ''refs/tags/'' @ tag) = None
       then CreateRefCall owner repo
              \<lparr>github_CreateRef.Ref = ''refs/tags/'' @ tag, SHA = CommitSHA config\<rparr>
       else UpdateRefCall owner repo (''tags/'' @ tag)
              \<lparr>SHA = CommitSHA config, Force = Some True\<rparr>]"
  proof (cases "view s (owner, repo, ''refs/tags/'' @ tag)")
    case None
    with g_res obtain e where err: "err = Some e"
      and resp: "resp = Some \<lparr>StatusCode = http_StatusNotFound\<rparr>"
      by auto
    let ?c = "\<lparr>github_CreateRef.Ref = ''refs/tags/'' @ tag, SHA = CommitSHA config\<rparr>"
    obtain ref2 resp2 err2 s2 where
      c: "CreateRef client s1 owner repo ?c = ((ref2, resp2, err2), s2)"
      by (metis prod.exhaust)
    have absent: "view s1 (owner, repo, github_CreateRef.Ref ?c) = None"
      using None g_view by simp
    from f absent have "snd (snd (fst (CreateRef client s1 owner repo ?c))) = None"
      and "view (snd (CreateRef client s1 owner repo ?c)) =
        (view s1)((owner, repo, github_CreateRef.Ref ?c) \<mapsto> github_CreateRef.SHA ?c)"
      unfolding faithful_def by blast+
    then have c_ok: "err2 = None"
      and c_view: "view s2 = (view s)((owner, repo, ''refs/tags/'' @ tag) \<mapsto> CommitSHA config)"
      using c g_view by simp_all
    have g': "GetRef client s owner repo (''tags/'' @ tag) =
        ((ref, Some \<lparr>StatusCode = http_StatusNotFound\<rparr>, Some e), s1)"
      using g err resp by simp
    show ?thesis
      using syncTag_create [OF g' _ real c] None c_ok c_view by simp
  next
    case (Some sha)
    with g_res have err: "err = None" by simp
    let ?u = "\<lparr>SHA = CommitSHA config, Force = Some True\<rparr>"
    obtain ref2 resp2 err2 s2 where
      u: "UpdateRef client s1 owner repo (''tags/'' @ tag) ?u = ((ref2, resp2, err2), s2)"
      by (metis prod.exhaust)
    have present: "view s1 (owner, repo, ''refs/'' @ ''tags/'' @ tag) \<noteq> None"
      using Some g_view by simp
    from f present have "snd (snd (fst (UpdateRef client s1 owner repo (''tags/'' @ tag) ?u))) = None"
      and "view (snd (UpdateRef client s1 owner repo (''tags/'' @ tag) ?u)) =
        (view s1)((owner, repo, ''refs/'' @ ''tags/'' @ tag) \<mapsto> github_UpdateRef.SHA ?u)"
      unfolding faithful_def by (metis github_UpdateRef.select_convs(2))+
    then have u_ok: "err2 = None"
      and u_view: "view s2 = (view s)((owner, repo, ''refs/tags/'' @ tag) \<mapsto> CommitSHA config)"
      using u g_view by simp_all
    have g': "GetRef client s owner repo (''tags/'' @ tag) = ((ref, resp, None), s1)"
      using g err by simp
    show ?thesis
      using syncTag_update [OF g' real u] Some u_ok u_view by simp
  qed
  then show "fst (syncTag client config owner repo tag s) = None"
    and "view (fst (snd (syncTag client config owner repo tag s))) =
      (view s)((owner, repo, ''refs/tags/'' @ tag) \<mapsto> CommitSHA config)"
    and "calls (snd (snd (syncTag client config owner repo tag s))) =
      [GetRefCall owner repo (''tags/'' @ tag),
       if view s (owner, repo, ''refs/tags/'' @ tag) = None
       then CreateRefCall owner repo
              \<lparr>github_CreateRef.Ref = ''refs/tags/'' @ tag, SHA = CommitSHA config\<rparr>
       else UpdateRefCall owner repo (''tags/'' @ tag)
              \<lparr>SHA = CommitSHA config, Force = Some True\<rparr>]"
    by blast+
qed

lemmas run_defs =
  Run_def syncTag_def example_config_def extractTagFromRef_def parseRepository_def
  strings_TrimPrefix_def MajorTag_def MinorTag_def errors_Join_def http_StatusNotFound_def
  parser_defs

lemma example_extract: "extractTagFromRef (GitRef example_config) = Inr ''v1.2.3''"
  by (simp add: example_config_def extractTagFromRef_def strings_HasPrefix_def
      strings_TrimPrefix_def)

lemma example_parse:
  "ParseSemVer ''v1.2.3'' =
     Inr \<lparr>Major = ''1'', Minor = ''2'', Patch = ''3'', Suffix = [], Full = ''v1.2.3'',
          IsPrerelease = False\<rparr>"
  by (simp add: parser_defs)

lemma example_not_skipped:
  "\<not> (IsPrerelease \<lparr>Major = ''1'', Minor = ''2'', Patch = ''3'', Suffix = [],
         Full = ''v1.2.3'', IsPrerelease = False\<rparr> \<and> SkipPrereleases example_config)"
  by simp

lemma example_repository:
  "parseRepository (GitHubRepo example_config) = Inr (''owner'', ''repo'')"
  by (simp add: example_config_def parseRepository_def)

lemma example_major: "SyncMajor example_config"
  by (simp add: example_config_def)

lemma example_minor: "SyncMinor example_config"
  by (simp add: example_config_def)

lemma example_tags:
  "MajorTag \<lparr>Major = ''1'', Minor = ''2'', Patch = ''3'', Suffix = [], Full = ''v1.2.3'',
     IsPrerelease = False\<rparr> = ''v1''"
  "MinorTag \<lparr>Major = ''1'', Minor = ''2'', Patch = ''3'', Suffix = [], Full = ''v1.2.3'',
     IsPrerelease = False\<rparr> = ''v1.2''"
  by (simp_all add: MajorTag_def MinorTag_def)


section \<open>Claims about the configuration and the run\<close>

text \<open>
  C10. \<open>Validate\<close> returns nil exactly when the token is not empty and the conditions the
  specification lists hold (repository, ref and commit identifier not empty, one of the
  two switches on). A configuration with an empty token is refused with the error that
  asks for the token, whatever its other fields are.
\<close>

theorem Validate_requires_token:
  "(Validate c = None \<longleftrightarrow>
      GitHubToken c \<noteq> [] \<and> GitHubRepo c \<noteq> [] \<and> GitRef c \<noteq> [] \<and> CommitSHA c \<noteq> [] \<and>
      (SyncMajor c \<or> SyncMinor c)) \<and>
   (Validate c = None \<longleftrightarrow> GitHubToken c \<noteq> [] \<and> spec_listed_ok c) \<and>
   Validate (c\<lparr>GitHubToken := []\<rparr>) =
     Some (Errorf ''github token is required (set --github-token or GITHUB_TOKEN)'' [])"
  by (auto simp: Validate_def spec_listed_ok_def)

theorem Validate_requires_token_witness:
  "Validate example_config = None \<and> spec_listed_ok (example_config\<lparr>GitHubToken := []\<rparr>) \<and>
   Validate (example_config\<lparr>GitHubToken := []\<rparr>) =
     Some (Errorf ''github token is required (set --github-token or GITHUB_TOKEN)'' [])"
proof -
  have "GitHubToken example_config \<noteq> [] \<and> spec_listed_ok example_config"
    by (simp add: example_config_def spec_listed_ok_def)
  moreover have "spec_listed_ok (example_config\<lparr>GitHubToken := []\<rparr>)"
    by (simp add: example_config_def spec_listed_ok_def)
  ultimately show ?thesis
    using Validate_requires_token [of example_config] by blast
qed

text \<open>
  C6. A run whose ref gives a tag that parses as a prerelease, with \<open>SkipPrereleases\<close>
  on, returns nil, leaves the remote as it was and makes no call on the client: no
  \<open>GetRef\<close>, no \<open>CreateRef\<close>, no \<open>UpdateRef\<close>, for either rolling tag.
\<close>

theorem Run_skips_prerelease:
  assumes "extractTagFromRef (GitRef config) = Inr tag"
    and "ParseSemVer tag = Inr semver"
    and "IsPrerelease semver" and "SkipPrereleases config"
  shows "fst (Run client config s) = None \<and>
    fst (snd (Run client config s)) = s \<and>
    calls (snd (snd (Run client config s))) = []"
  by (simp add: Run_skip [OF assms])

theorem Run_skips_prerelease_witness:
  "extractTagFromRef (GitRef (example_config\<lparr>GitRef := ''refs/tags/v1.2.3-beta''\<rparr>)) =
     Inr ''v1.2.3-beta'' \<and>
   IsPrerelease \<lparr>Major = ''1'', Minor = ''2'', Patch = ''3'', Suffix = ''-beta'',
     Full = ''v1.2.3-beta'', IsPrerelease = True\<rparr> \<and>
   SkipPrereleases (example_config\<lparr>GitRef := ''refs/tags/v1.2.3-beta''\<rparr>) \<and>
   fst (Run memory_client (example_config\<lparr>GitRef := ''refs/tags/v1.2.3-beta''\<rparr>) Map.empty) =
     None \<and>
   calls (snd (snd
     (Run memory_client (example_config\<lparr>GitRef := ''refs/tags/v1.2.3-beta''\<rparr>) Map.empty))) = []"
proof -
  let ?config = "example_config\<lparr>GitRef := ''refs/tags/v1.2.3-beta''\<rparr>"
  let ?semver = "\<lparr>Major = ''1'', Minor = ''2'', Patch = ''3'', Suffix = ''-beta'',
     Full = ''v1.2.3-beta'', IsPrerelease = True\<rparr>"
  have e: "extractTagFromRef (GitRef ?config) = Inr ''v1.2.3-beta''"
    by (simp add: example_config_def extractTagFromRef_def strings_HasPrefix_def
        strings_TrimPrefix_def)
  have p: "ParseSemVer ''v1.2.3-beta'' = Inr ?semver"
    by (simp add: parser_defs)
  have i: "IsPrerelease ?semver" by simp
  have k: "SkipPrereleases ?config" by (simp add: example_config_def)
  from Run_skips_prerelease [OF e p i k, of memory_client Map.empty] e i k
  show ?thesis by blast
qed

text \<open>
  C2, as the code has it. In a run that reaches the reconciliations (the ref, the tag and
  the repository are well-formed and the tag is not skipped) with both switches on, the
  major tag is reconciled first and then, from the state the major reconciliation left
  and whether it failed or not, the minor tag: the calls of the run are those of the
  major reconciliation followed by those of the minor one, and each begins with its
  lookup.
  The run returns an error exactly when one of the two failed, and the error is the join
  of the failures in that order, each naming its rolling tag and wrapping the error its
  reconciliation returned.
\<close>

theorem Run_aggregates_failures:
  assumes "extractTagFromRef (GitRef config) = Inr tag"
    and "ParseSemVer tag = Inr semver"
    and "\<not> (IsPrerelease semver \<and> SkipPrereleases config)"
    and "parseRepository (GitHubRepo config) = Inr (owner, repo)"
    and "SyncMajor config" and "SyncMinor config"
    and "syncTag client config owner repo (MajorTag semver) s = (r1, s1, ev1)"
    and "syncTag client config owner repo (MinorTag semver) s1 = (r2, s2, ev2)"
  shows "calls (snd (snd (Run client config s))) = calls ev1 @ calls ev2 \<and>
    (\<exists>cs. calls ev1 = GetRefCall owner repo (''tags/'' @ MajorTag semver) # cs) \<and>
    (\<exists>cs. calls ev2 = GetRefCall owner repo (''tags/'' @ MinorTag semver) # cs) \<and>
    fst (snd (Run client config s)) = s2 \<and>
    (fst (Run client config s) = None \<longleftrightarrow> r1 = None \<and> r2 = None) \<and>
    (r1 \<noteq> None \<or> r2 \<noteq> None \<longrightarrow>
       fst (Run client config s) =
         Some (Join
           ((case r1 of None \<Rightarrow> []
             | Some e \<Rightarrow> [Errorw ''failed to sync major tag %s: %w'' [MajorTag semver] e]) @
            (case r2 of None \<Rightarrow> []
             | Some e \<Rightarrow> [Errorw ''failed to sync minor tag %s: %w'' [MinorTag semver] e]))))"
proof -
  note run = Run_both [OF assms]
  have p1: "\<exists>cs. calls ev1 = GetRefCall owner repo (''tags/'' @ MajorTag semver) # cs"
    using syncTag_probes_first [of client config owner repo "MajorTag semver" s] assms(7)
    by simp
  have p2: "\<exists>cs. calls ev2 = GetRefCall owner repo (''tags/'' @ MinorTag semver) # cs"
    using syncTag_probes_first [of client config owner repo "MinorTag semver" s1] assms(8)
    by simp
  have res: "(fst (Run client config s) = None \<longleftrightarrow> r1 = None \<and> r2 = None) \<and>
    (r1 \<noteq> None \<or> r2 \<noteq> None \<longrightarrow>
       fst (Run client config s) =
         Some (Join
           ((case r1 of None \<Rightarrow> []
             | Some e \<Rightarrow> [Errorw ''failed to sync major tag %s: %w'' [MajorTag semver] e]) @
            (case r2 of None \<Rightarrow> []
             | Some e \<Rightarrow> [Errorw ''failed to sync minor tag %s: %w'' [MinorTag semver] e]))))"
    unfolding run(1) by (cases r1; cases r2) (simp_all add: errors_Join_def)
  from run(2,3) p1 p2 res show ?thesis by blast
qed

theorem Run_aggregates_failures_witness:
  "fst (syncTag flaky_client example_config ''owner'' ''repo'' ''v1'' 0) =
     Some (Errorw ''failed to check if tag %s exists: %w'' [''v1'']
             (New ''500 Internal Server Error'')) \<and>
   fst (syncTag flaky_client example_config ''owner'' ''repo'' ''v1.2'' (Suc 0)) = None \<and>
   calls (snd (snd (Run flaky_client example_config 0))) =
     [GetRefCall ''owner'' ''repo'' ''tags/v1'', GetRefCall ''owner'' ''repo'' ''tags/v1.2'',
      CreateRefCall ''owner'' ''repo''
        \<lparr>github_CreateRef.Ref = ''refs/tags/v1.2'', SHA = ''abc123''\<rparr>] \<and>
   fst (Run flaky_client example_config 0) =
     Some (Join
       [Errorw ''failed to sync major tag %s: %w'' [''v1'']
          (Errorw ''failed to check if tag %s exists: %w'' [''v1'']
             (New ''500 Internal Server Error''))])"
proof -
  let ?major = "syncTag flaky_client example_config ''owner'' ''repo'' ''v1'' 0"
  let ?minor = "syncTag flaky_client example_config ''owner'' ''repo'' ''v1.2'' (Suc 0)"
  have major: "?major =
      (Some (Errorw ''failed to check if tag %s exists: %w'' [''v1'']
               (New ''500 Internal Server Error'')),
       Suc 0, snd (snd ?major))"
    and major_calls: "calls (snd (snd ?major)) = [GetRefCall ''owner'' ''repo'' ''tags/v1'']"
    by (simp_all add: syncTag_def flaky_client_def example_config_def Let_def
        http_StatusNotFound_def)
  have minor: "?minor = (None, Suc (Suc (Suc 0)), snd (snd ?minor))"
    and minor_calls: "calls (snd (snd ?minor)) =
      [GetRefCall ''owner'' ''repo'' ''tags/v1.2'',
       CreateRefCall ''owner'' ''repo''
         \<lparr>github_CreateRef.Ref = ''refs/tags/v1.2'', SHA = ''abc123''\<rparr>]"
    by (simp_all add: syncTag_def flaky_client_def example_config_def Let_def
        http_StatusNotFound_def)
  note run = Run_aggregates_failures
    [OF example_extract example_parse example_not_skipped example_repository
        example_major example_minor,
     of flaky_client 0, unfolded example_tags, OF major minor]
  have "fst ?major =
      Some (Errorw ''failed to check if tag %s exists: %w'' [''v1'']
              (New ''500 Internal Server Error''))"
    by (subst major) simp
  moreover have "fst ?minor = None"
    by (subst minor) simp
  ultimately show ?thesis
    using run major_calls minor_calls by simp
qed

text \<open>
  C2 as stated fails for a run that does not reach the reconciliations. With both
  switches on, a run on the ref \<open>refs/heads/main\<close> returns the error of the ref, and a
  run on the prerelease \<open>refs/tags/v1.2.3-beta\<close> with \<open>SkipPrereleases\<close> on returns nil:
  neither makes any call on the client, so neither rolling tag is reconciled.
\<close>

theorem Run_without_reconciliation_counterexample:
  "SyncMajor (example_config\<lparr>GitRef := ''refs/heads/main''\<rparr>) \<and>
   SyncMinor (example_config\<lparr>GitRef := ''refs/heads/main''\<rparr>) \<and>
   fst (Run memory_client (example_config\<lparr>GitRef := ''refs/heads/main''\<rparr>) Map.empty) =
     Some (Errorf ''ref %q is not a tag (expected refs/tags/...)'' [''refs/heads/main'']) \<and>
   calls (snd (snd
     (Run memory_client (example_config\<lparr>GitRef := ''refs/heads/main''\<rparr>) Map.empty))) = [] \<and>
   SyncMajor (example_config\<lparr>GitRef := ''refs/tags/v1.2.3-beta''\<rparr>) \<and>
   SyncMinor (example_config\<lparr>GitRef := ''refs/tags/v1.2.3-beta''\<rparr>) \<and>
   fst (Run memory_client (example_config\<lparr>GitRef := ''refs/tags/v1.2.3-beta''\<rparr>) Map.empty) =
     None \<and>
   calls (snd (snd
     (Run memory_client (example_config\<lparr>GitRef := ''refs/tags/v1.2.3-beta''\<rparr>) Map.empty))) = []"
  by (simp add: run_defs)

text \<open>
  C5, as the code has it. The run does not tell a cancellation from any other failure.
  In a run that reaches the reconciliations with both switches on, when the major
  reconciliation fails, with the error of a cancelled context or any other, the minor
  reconciliation is attempted all the same: its lookup is issued right after the calls of
  the major one. The failure is returned only at the end of the run, first in the join
  of the failures.
\<close>

theorem Run_continues_after_failure:
  assumes "extractTagFromRef (GitRef config) = Inr tag"
    and "ParseSemVer tag = Inr semver"
    and "\<not> (IsPrerelease semver \<and> SkipPrereleases config)"
    and "parseRepository (GitHubRepo config) = Inr (owner, repo)"
    and "SyncMajor config" and "SyncMinor config"
    and "syncTag client config owner repo (MajorTag semver) s = (Some e, s1, ev1)"
    and "syncTag client config owner repo (MinorTag semver) s1 = (r2, s2, ev2)"
  shows "(\<exists>cs. calls (snd (snd (Run client config s))) =
            calls ev1 @ GetRefCall owner repo (''tags/'' @ MinorTag semver) # cs) \<and>
    fst (Run client config s) =
      Some (Join
        (Errorw ''failed to sync major tag %s: %w'' [MajorTag semver] e #
         (case r2 of None \<Rightarrow> []
          | Some e2 \<Rightarrow> [Errorw ''failed to sync minor tag %s: %w'' [MinorTag semver] e2])))"
proof -
  note run = Run_both [OF assms]
  have "\<exists>cs. calls ev2 = GetRefCall owner repo (''tags/'' @ MinorTag semver) # cs"
    using syncTag_probes_first [of client config owner repo "MinorTag semver" s1] assms(8)
    by simp
  then have "\<exists>cs. calls (snd (snd (Run client config s))) =
            calls ev1 @ GetRefCall owner repo (''tags/'' @ MinorTag semver) # cs"
    unfolding run(3) by auto
  moreover have "fst (Run client config s) =
      Some (Join
        (Errorw ''failed to sync major tag %s: %w'' [MajorTag semver] e #
         (case r2 of None \<Rightarrow> []
          | Some e2 \<Rightarrow> [Errorw ''failed to sync minor tag %s: %w'' [MinorTag semver] e2])))"
    unfolding run(1) by (simp add: errors_Join_def)
  ultimately show ?thesis by blast
qed

theorem Run_continues_after_failure_witness:
  "fst (syncTag canceled_client example_config ''owner'' ''repo'' ''v1'' ()) =
     Some (Errorw ''failed to check if tag %s exists: %w'' [''v1''] context_Canceled) \<and>
   (\<exists>cs. calls (snd (snd (Run canceled_client example_config ()))) =
      calls (snd (snd (syncTag canceled_client example_config ''owner'' ''repo'' ''v1'' ()))) @
      GetRefCall ''owner'' ''repo'' ''tags/v1.2'' # cs) \<and>
   fst (Run canceled_client example_config ()) =
     Some (Join
       [Errorw ''failed to sync major tag %s: %w'' [''v1'']
          (Errorw ''failed to check if tag %s exists: %w'' [''v1''] context_Canceled),
        Errorw ''failed to sync minor tag %s: %w'' [''v1.2'']
          (Errorw ''failed to check if tag %s exists: %w'' [''v1.2''] context_Canceled)])"
proof -
  let ?major = "syncTag canceled_client example_config ''owner'' ''repo'' ''v1'' ()"
  let ?minor = "syncTag canceled_client example_config ''owner'' ''repo'' ''v1.2'' ()"
  have g: "GetRef canceled_client () owner repo name = ((None, None, Some context_Canceled), ())"
    for owner repo name
    by (simp add: canceled_client_def)
  have major: "?major =
      (Some (Errorw ''failed to check if tag %s exists: %w'' [''v1''] context_Canceled), (),
       snd (snd ?major))"
    using syncTag_fatal [where client = canceled_client and s = "()" and owner = "''owner''"
        and repo = "''repo''" and tag = "''v1''" and config = example_config, OF g]
    by simp
  have minor: "?minor =
      (Some (Errorw ''failed to check if tag %s exists: %w'' [''v1.2''] context_Canceled), (),
       snd (snd ?minor))"
    using syncTag_fatal [where client = canceled_client and s = "()" and owner = "''owner''"
        and repo = "''repo''" and tag = "''v1.2''" and config = example_config, OF g]
    by simp
  note run = Run_continues_after_failure
    [OF example_extract example_parse example_not_skipped example_repository
        example_major example_minor,
     of canceled_client "()", unfolded example_tags, OF major minor]
  have "fst ?major =
      Some (Errorw ''failed to check if tag %s exists: %w'' [''v1''] context_Canceled)"
    by (subst major) simp
  with run show ?thesis by simp
qed

text \<open>
  C5 as stated fails. With a cancelled context the reconciliation of \<open>v1\<close> fails with
  the error of the context, and the run still issues the lookup of \<open>v1.2\<close>.
\<close>

theorem Run_cancellation_counterexample:
  "fst (syncTag canceled_client example_config ''owner'' ''repo'' ''v1'' ()) =
     Some (Errorw ''failed to check if tag %s exists: %w'' [''v1''] context_Canceled) \<and>
   calls (snd (snd (Run canceled_client example_config ()))) =
     [GetRefCall ''owner'' ''repo'' ''tags/v1'', GetRefCall ''owner'' ''repo'' ''tags/v1.2'']"
  by (simp add: run_defs canceled_client_def)

section \<open>Claims about the reconciliation of one rolling tag\<close>

text \<open>
  C1, as the code has it. The one lookup of \<open>tags/\<close> and the rolling tag decides the
  reconciliation. An error of the lookup with no response, or with a response whose
  status is not 404, ends the reconciliation of the tag, with or without dry run: the
  error is returned wrapped with the name of the tag and no other call is made. When dry
  run is off, an error of the lookup with status 404 is no error of the reconciliation:
  it leads to one creation of \<open>refs/tags/\<close> and the rolling tag at the commit of the
  configuration, and only a failure of that creation is returned; a lookup without
  error, whatever reference and response it returns, leads to one update of the ref to
  that commit with force set to true, and only a failure of that update is returned.
\<close>

theorem syncTag_probe_classification:
  assumes probe: "GetRef client s owner repo (''tags/'' @ tag) = ((ref, resp, err), s1)"
  shows "(\<forall>e. err = Some e \<and>
            (resp = None \<or> (\<exists>r. resp = Some r \<and> StatusCode r \<noteq> http_StatusNotFound)) \<longrightarrow>
       fst (syncTag client config owner repo tag s) =
         Some (Errorw ''failed to check if tag %s exists: %w'' [tag] e) \<and>
       fst (snd (syncTag client config owner repo tag s)) = s1 \<and>
       calls (snd (snd (syncTag client config owner repo tag s))) =
         [GetRefCall owner repo (''tags/'' @ tag)]) \<and>
    (\<forall>e r. err = Some e \<and> resp = Some r \<and> StatusCode r = http_StatusNotFound \<and>
            \<not> DryRun config \<longrightarrow>
       calls (snd (snd (syncTag client config owner repo tag s))) =
         [GetRefCall owner repo (''tags/'' @ tag),
          CreateRefCall owner repo
            \<lparr>github_CreateRef.Ref = ''refs/tags/'' @ tag, SHA = CommitSHA config\<rparr>] \<and>
       fst (syncTag client config owner repo tag s) =
         map_option (Errorw ''failed to create tag %s: %w'' [tag])
           (snd (snd (fst (CreateRef client s1 owner repo
              \<lparr>github_CreateRef.Ref = ''refs/tags/'' @ tag, SHA = CommitSHA config\<rparr>)))) \<and>
       fst (snd (syncTag client config owner repo tag s)) =
         snd (CreateRef client s1 owner repo
            \<lparr>github_CreateRef.Ref = ''refs/tags/'' @ tag, SHA = CommitSHA config\<rparr>)) \<and>
    (err = None \<and> \<not> DryRun config \<longrightarrow>
       calls (snd (snd (syncTag client config owner repo tag s))) =
         [GetRefCall owner repo (''tags/'' @ tag),
          UpdateRefCall owner repo (''tags/'' @ tag)
            \<lparr>SHA = CommitSHA config, Force = Some True\<rparr>] \<and>
       fst (syncTag client config owner repo tag s) =
         map_option (Errorw ''failed to update tag %s: %w'' [tag])
           (snd (snd (fst (UpdateRef client s1 owner repo (''tags/'' @ tag)
              \<lparr>SHA = CommitSHA config, Force = Some True\<rparr>)))) \<and>
       fst (snd (syncTag client config owner repo tag s)) =
         snd (UpdateRef client s1 owner repo (''tags/'' @ tag)
            \<lparr>SHA = CommitSHA config, Force = Some True\<rparr>))"
proof (intro conjI allI impI)
  fix e
  assume a: "err = Some e \<and>
    (resp = None \<or> (\<exists>r. resp = Some r \<and> StatusCode r \<noteq> http_StatusNotFound))"
  then have g: "GetRef client s owner repo (''tags/'' @ tag) = ((ref, resp, Some e), s1)"
    using probe by simp
  note r = syncTag_fatal [OF g conjunct2 [OF a], of config]
  show "fst (syncTag client config owner repo tag s) =
      Some (Errorw ''failed to check if tag %s exists: %w'' [tag] e)"
    and "fst (snd (syncTag client config owner repo tag s)) = s1"
    and "calls (snd (snd (syncTag client config owner repo tag s))) =
      [GetRefCall owner repo (''tags/'' @ tag)]"
    by (simp_all add: r)
next
  fix e r
  let ?c = "\<lparr>github_CreateRef.Ref = ''refs/tags/'' @ tag, SHA = CommitSHA config\<rparr>"
  assume a: "err = Some e \<and> resp = Some r \<and> StatusCode r = http_StatusNotFound \<and>
    \<not> DryRun config"
  then have g: "GetRef client s owner repo (''tags/'' @ tag) = ((ref, Some r, Some e), s1)"
    and nf: "StatusCode r = http_StatusNotFound" and real: "\<not> DryRun config"
    using probe by simp_all
  obtain ref2 resp2 err2 s2 where
    c: "CreateRef client s1 owner repo ?c = ((ref2, resp2, err2), s2)"
    by (metis prod.exhaust)
  note r = syncTag_create [OF g nf real c]
  show "calls (snd (snd (syncTag client config owner repo tag s))) =
      [GetRefCall owner repo (''tags/'' @ tag), CreateRefCall owner repo ?c]"
    and "fst (syncTag client config owner repo tag s) =
      map_option (Errorw ''failed to create tag %s: %w'' [tag])
        (snd (snd (fst (CreateRef client s1 owner repo ?c))))"
    and "fst (snd (syncTag client config owner repo tag s)) =
      snd (CreateRef client s1 owner repo ?c)"
    unfolding r c by simp_all
next
  let ?u = "\<lparr>SHA = CommitSHA config, Force = Some True\<rparr>"
  assume a: "err = None \<and> \<not> DryRun config"
  then have g: "GetRef client s owner repo (''tags/'' @ tag) = ((ref, resp, None), s1)"
    and real: "\<not> DryRun config"
    using probe by simp_all
  obtain ref2 resp2 err2 s2 where
    u: "UpdateRef client s1 owner repo (''tags/'' @ tag) ?u = ((ref2, resp2, err2), s2)"
    by (metis prod.exhaust)
  note r = syncTag_update [OF g real u]
  show "calls (snd (snd (syncTag client config owner repo tag s))) =
      [GetRefCall owner repo (''tags/'' @ tag),
       UpdateRefCall owner repo (''tags/'' @ tag) ?u]"
    and "fst (syncTag client config owner repo tag s) =
      map_option (Errorw ''failed to update tag %s: %w'' [tag])
        (snd (snd (fst (UpdateRef client s1 owner repo (''tags/'' @ tag) ?u))))"
    and "fst (snd (syncTag client config owner repo tag s)) =
      snd (UpdateRef client s1 owner repo (''tags/'' @ tag) ?u)"
    unfolding r u by simp_all
qed

theorem syncTag_probe_classification_witness:
  "fst (syncTag (failing_client None (New ''network error'')) example_config
          ''owner'' ''repo'' ''v1'' ()) =
     Some (Errorw ''failed to check if tag %s exists: %w'' [''v1''] (New ''network error'')) \<and>
   calls (snd (snd (syncTag (failing_client None (New ''network error'')) example_config
          ''owner'' ''repo'' ''v1'' ()))) =
     [GetRefCall ''owner'' ''repo'' ''tags/v1''] \<and>
   calls (snd (snd (syncTag memory_client example_config ''owner'' ''repo'' ''v1'' Map.empty))) =
     [GetRefCall ''owner'' ''repo'' ''tags/v1'',
      CreateRefCall ''owner'' ''repo''
        \<lparr>github_CreateRef.Ref = ''refs/tags/v1'', SHA = ''abc123''\<rparr>] \<and>
   fst (syncTag memory_client example_config ''owner'' ''repo'' ''v1'' Map.empty) = None \<and>
   calls (snd (snd (syncTag memory_client example_config ''owner'' ''repo'' ''v1''
          [(''owner'', ''repo'', ''refs/tags/v1'') \<mapsto> ''0ld'']))) =
     [GetRefCall ''owner'' ''repo'' ''tags/v1'',
      UpdateRefCall ''owner'' ''repo'' ''tags/v1'' \<lparr>SHA = ''abc123'', Force = Some True\<rparr>] \<and>
   fst (syncTag memory_client example_config ''owner'' ''repo'' ''v1''
          [(''owner'', ''repo'', ''refs/tags/v1'') \<mapsto> ''0ld'']) = None"
proof -
  have real: "\<not> DryRun example_config" and sha: "CommitSHA example_config = ''abc123''"
    by (simp_all add: example_config_def)
  have g1: "GetRef (failing_client None (New ''network error'')) () ''owner'' ''repo''
      (''tags/'' @ ''v1'') = ((None, None, Some (New ''network error'')), ())"
    by (simp add: failing_client_def)
  have g2: "GetRef memory_client Map.empty ''owner'' ''repo'' (''tags/'' @ ''v1'') =
      ((None, Some \<lparr>StatusCode = 404\<rparr>, Some (New ''404 Not Found'')), Map.empty)"
    by (simp add: memory_client_def)
  have g3: "GetRef memory_client [(''owner'', ''repo'', ''refs/tags/v1'') \<mapsto> ''0ld'']
      ''owner'' ''repo'' (''tags/'' @ ''v1'') =
      ((Some \<lparr>github_Reference.Ref = ''refs/tags/v1'', SHA = ''0ld''\<rparr>,
        Some \<lparr>StatusCode = 200\<rparr>, None),
       [(''owner'', ''repo'', ''refs/tags/v1'') \<mapsto> ''0ld''])"
    by (simp add: memory_client_def)
  have c2: "snd (snd (fst (CreateRef memory_client Map.empty ''owner'' ''repo''
      \<lparr>github_CreateRef.Ref = ''refs/tags/v1'', SHA = ''abc123''\<rparr>))) = None"
    by (simp add: memory_client_def)
  have u3: "snd (snd (fst (UpdateRef memory_client
      [(''owner'', ''repo'', ''refs/tags/v1'') \<mapsto> ''0ld''] ''owner'' ''repo'' ''tags/v1''
      \<lparr>SHA = ''abc123'', Force = Some True\<rparr>))) = None"
    by (simp add: memory_client_def)
  note t1 = syncTag_probe_classification [OF g1, of example_config, THEN conjunct1]
  note t2 = syncTag_probe_classification [OF g2, of example_config, THEN conjunct2,
      THEN conjunct1]
  note t3 = syncTag_probe_classification [OF g3, of example_config, THEN conjunct2,
      THEN conjunct2]
  have "fst (syncTag (failing_client None (New ''network error'')) example_config
          ''owner'' ''repo'' ''v1'' ()) =
     Some (Errorw ''failed to check if tag %s exists: %w'' [''v1''] (New ''network error''))"
    and "calls (snd (snd (syncTag (failing_client None (New ''network error''))
          example_config ''owner'' ''repo'' ''v1'' ()))) =
     [GetRefCall ''owner'' ''repo'' ''tags/v1'']"
    using t1 by simp_all
  moreover have "calls (snd (snd (syncTag memory_client example_config ''owner'' ''repo''
          ''v1'' Map.empty))) =
     [GetRefCall ''owner'' ''repo'' ''tags/v1'',
      CreateRefCall ''owner'' ''repo''
        \<lparr>github_CreateRef.Ref = ''refs/tags/v1'', SHA = ''abc123''\<rparr>]"
    and "fst (syncTag memory_client example_config ''owner'' ''repo'' ''v1'' Map.empty) = None"
    using t2 real c2 by (simp_all add: sha http_StatusNotFound_def)
  moreover have "calls (snd (snd (syncTag memory_client example_config ''owner'' ''repo''
          ''v1'' [(''owner'', ''repo'', ''refs/tags/v1'') \<mapsto> ''0ld'']))) =
     [GetRefCall ''owner'' ''repo'' ''tags/v1'',
      UpdateRefCall ''owner'' ''repo'' ''tags/v1'' \<lparr>SHA = ''abc123'', Force = Some True\<rparr>]"
    and "fst (syncTag memory_client example_config ''owner'' ''repo'' ''v1''
          [(''owner'', ''repo'', ''refs/tags/v1'') \<mapsto> ''0ld'']) = None"
    using t3 real u3 by (simp_all add: sha)
  ultimately show ?thesis by blast
qed

text \<open>
  C1 as stated fails under dry run: the lookup of \<open>tags/v1\<close> on a remote without refs
  gives an error with status 404, and the reconciliation makes no other call and creates
  nothing.
\<close>

theorem syncTag_dry_run_counterexample:
  "GetRef memory_client Map.empty ''owner'' ''repo'' ''tags/v1'' =
     ((None, Some \<lparr>StatusCode = 404\<rparr>, Some (New ''404 Not Found'')), Map.empty) \<and>
   DryRun (example_config\<lparr>DryRun := True\<rparr>) \<and>
   calls (snd (snd (syncTag memory_client (example_config\<lparr>DryRun := True\<rparr>)
      ''owner'' ''repo'' ''v1'' Map.empty))) = [GetRefCall ''owner'' ''repo'' ''tags/v1''] \<and>
   fst (snd (syncTag memory_client (example_config\<lparr>DryRun := True\<rparr>)
      ''owner'' ''repo'' ''v1'' Map.empty)) (''owner'', ''repo'', ''refs/tags/v1'') = None"
  by (simp add: syncTag_def memory_client_def example_config_def Let_def
      http_StatusNotFound_def)

text \<open>
  C7. Under dry run the lookup is still made and is the only call of the
  reconciliation: neither \<open>CreateRef\<close> nor \<open>UpdateRef\<close> is called, so the remote is left
  in the state in which the lookup left it, and a remote that faithfully records its
  refs has the refs it had. The lookup is classified as without dry run: an error with no
  response or with a status other than 404 is returned wrapped with the name of the tag;
  otherwise the reconciliation returns nil, and the last thing it does is to report what
  it would have done: a creation after a 404, an update after a lookup without error.
\<close>

theorem syncTag_dry_run:
  assumes dry: "DryRun config"
    and probe: "GetRef client s owner repo (''tags/'' @ tag) = ((ref, resp, err), s1)"
  shows "calls (snd (snd (syncTag client config owner repo tag s))) =
      [GetRefCall owner repo (''tags/'' @ tag)] \<and>
    fst (snd (syncTag client config owner repo tag s)) = s1 \<and>
    (\<forall>view. faithful client view \<longrightarrow>
       view (fst (snd (syncTag client config owner repo tag s))) = view s) \<and>
    (\<forall>e. err = Some e \<and>
          (resp = None \<or> (\<exists>r. resp = Some r \<and> StatusCode r \<noteq> http_StatusNotFound)) \<longrightarrow>
       fst (syncTag client config owner repo tag s) =
         Some (Errorw ''failed to check if tag %s exists: %w'' [tag] e)) \<and>
    (\<forall>e r. err = Some e \<and> resp = Some r \<and> StatusCode r = http_StatusNotFound \<longrightarrow>
       fst (syncTag client config owner repo tag s) = None \<and>
       last (snd (snd (syncTag client config owner repo tag s))) =
         Log LevelInfo ''[dry-run] Would create tag''
           [slog_String ''tag'' tag, slog_String ''commit_sha'' (CommitSHA config)]) \<and>
    (err = None \<longrightarrow>
       fst (syncTag client config owner repo tag s) = None \<and>
       last (snd (snd (syncTag client config owner repo tag s))) =
         Log LevelInfo ''[dry-run] Would update tag''
           [slog_String ''tag'' tag, slog_String ''commit_sha'' (CommitSHA config)])"
proof -
  have fatal: "fst (syncTag client config owner repo tag s) =
        Some (Errorw ''failed to check if tag %s exists: %w'' [tag] e) \<and>
      fst (snd (syncTag client config owner repo tag s)) = s1 \<and>
      calls (snd (snd (syncTag client config owner repo tag s))) =
        [GetRefCall owner repo (''tags/'' @ tag)]"
    if "err = Some e"
      and "resp = None \<or> (\<exists>r. resp = Some r \<and> StatusCode r \<noteq> http_StatusNotFound)" for e
  proof -
    from that(1) probe
    have "GetRef client s owner repo (''tags/'' @ tag) = ((ref, resp, Some e), s1)"
      by simp
    from syncTag_fatal [OF this that(2), of config] show ?thesis by simp
  qed
  have absent: "fst (syncTag client config owner repo tag s) = None \<and>
      fst (snd (syncTag client config owner repo tag s)) = s1 \<and>
      calls (snd (snd (syncTag client config owner repo tag s))) =
        [GetRefCall owner repo (''tags/'' @ tag)] \<and>
      last (snd (snd (syncTag client config owner repo tag s))) =
        Log LevelInfo ''[dry-run] Would create tag''
          [slog_String ''tag'' tag, slog_String ''commit_sha'' (CommitSHA config)]"
    if "err = Some e" and "resp = Some r" and "StatusCode r = http_StatusNotFound" for e r
  proof -
    from that(1,2) probe
    have "GetRef client s owner repo (''tags/'' @ tag) = ((ref, Some r, Some e), s1)"
      by simp
    from syncTag_dry_absent [OF this that(3) dry] show ?thesis by simp
  qed
  have present: "fst (syncTag client config owner repo tag s) = None \<and>
      fst (snd (syncTag client config owner repo tag s)) = s1 \<and>
      calls (snd (snd (syncTag client config owner repo tag s))) =
        [GetRefCall owner repo (''tags/'' @ tag)] \<and>
      last (snd (snd (syncTag client config owner repo tag s))) =
        Log LevelInfo ''[dry-run] Would update tag''
          [slog_String ''tag'' tag, slog_String ''commit_sha'' (CommitSHA config)]"
    if "err = None"
  proof -
    from that probe
    have "GetRef client s owner repo (''tags/'' @ tag) = ((ref, resp, None), s1)"
      by simp
    from syncTag_dry_present [OF this dry] show ?thesis by simp
  qed
  have cases: "err = None \<or>
      (\<exists>e r. err = Some e \<and> resp = Some r \<and> StatusCode r = http_StatusNotFound) \<or>
      (\<exists>e. err = Some e \<and>
        (resp = None \<or> (\<exists>r. resp = Some r \<and> StatusCode r \<noteq> http_StatusNotFound)))"
    by (cases err; cases resp) auto
  have only_probe: "calls (snd (snd (syncTag client config owner repo tag s))) =
      [GetRefCall owner repo (''tags/'' @ tag)]"
    and state: "fst (snd (syncTag client config owner repo tag s)) = s1"
    using cases fatal absent present by blast+
  have kept: "view (fst (snd (syncTag client config owner repo tag s))) = view s"
    if f: "faithful client view" for view
  proof -
    from f have "view (snd (GetRef client s owner repo (''tags/'' @ tag))) = view s"
      unfolding faithful_def by blast
    then have "view s1 = view s" unfolding probe by simp
    then show ?thesis unfolding state .
  qed
  from only_probe state kept fatal absent present show ?thesis by blast
qed

theorem syncTag_dry_run_witness:
  "DryRun (example_config\<lparr>DryRun := True\<rparr>) \<and>
   faithful memory_client (\<lambda>s. s) \<and>
   calls (snd (snd (syncTag memory_client (example_config\<lparr>DryRun := True\<rparr>)
      ''owner'' ''repo'' ''v1'' Map.empty))) = [GetRefCall ''owner'' ''repo'' ''tags/v1''] \<and>
   fst (snd (syncTag memory_client (example_config\<lparr>DryRun := True\<rparr>)
      ''owner'' ''repo'' ''v1'' Map.empty)) = Map.empty \<and>
   fst (syncTag memory_client (example_config\<lparr>DryRun := True\<rparr>)
      ''owner'' ''repo'' ''v1'' Map.empty) = None \<and>
   last (snd (snd (syncTag memory_client (example_config\<lparr>DryRun := True\<rparr>)
      ''owner'' ''repo'' ''v1'' Map.empty))) =
     Log LevelInfo ''[dry-run] Would create tag''
       [slog_String ''tag'' ''v1'', slog_String ''commit_sha'' ''abc123'']"
proof -
  let ?config = "example_config\<lparr>DryRun := True\<rparr>"
  have dry: "DryRun ?config" and sha: "CommitSHA ?config = ''abc123''"
    by (simp_all add: example_config_def)
  have g: "GetRef memory_client Map.empty ''owner'' ''repo'' (''tags/'' @ ''v1'') =
      ((None, Some \<lparr>StatusCode = 404\<rparr>, Some (New ''404 Not Found'')), Map.empty)"
    by (simp add: memory_client_def)
  note t = syncTag_dry_run [OF dry g]
  have a: "calls (snd (snd (syncTag memory_client ?config ''owner'' ''repo'' ''v1'' Map.empty))) =
      [GetRefCall ''owner'' ''repo'' (''tags/'' @ ''v1'')]"
    by (rule t [THEN conjunct1])
  have b: "fst (snd (syncTag memory_client ?config ''owner'' ''repo'' ''v1'' Map.empty)) =
      Map.empty"
    by (rule t [THEN conjunct2, THEN conjunct1])
  have c: "fst (syncTag memory_client ?config ''owner'' ''repo'' ''v1'' Map.empty) = None \<and>
      last (snd (snd (syncTag memory_client ?config ''owner'' ''repo'' ''v1'' Map.empty))) =
        Log LevelInfo ''[dry-run] Would create tag''
          [slog_String ''tag'' ''v1'', slog_String ''commit_sha'' (CommitSHA ?config)]"
    using t [THEN conjunct2, THEN conjunct2, THEN conjunct2, THEN conjunct2, THEN conjunct1]
    by (simp add: http_StatusNotFound_def)
  from a b c dry memory_client_faithful show ?thesis
    by (simp add: sha)
qed

text \<open>
  C8, as the code has it. With dry run off and a remote that faithfully records its refs,
  two reconciliations of the same rolling tag in succession both return nil; after the
  first the ref \<open>refs/tags/\<close> and the rolling tag exists and points at the commit of the
  configuration, the second leaves every ref as the first left it, and the second is a
  lookup followed by an update with force set to true.
\<close>

theorem syncTag_idempotent:
  assumes "faithful client view" and "\<not> DryRun config"
    and "syncTag client config owner repo tag s = (r1, s1, ev1)"
    and "syncTag client config owner repo tag s1 = (r2, s2, ev2)"
  shows "r1 = None \<and> r2 = None \<and>
    view s1 (owner, repo, ''refs/tags/'' @ tag) = Some (CommitSHA config) \<and>
    view s2 = view s1 \<and>
    calls ev2 =
      [GetRefCall owner repo (''tags/'' @ tag),
       UpdateRefCall owner repo (''tags/'' @ tag)
         \<lparr>SHA = CommitSHA config, Force = Some True\<rparr>]"
proof -
  note first = faithful_syncTag [OF assms(1,2), of owner repo tag s]
  note second = faithful_syncTag [OF assms(1,2), of owner repo tag s1]
  have r1: "r1 = None"
    and v1: "view s1 = (view s)((owner, repo, ''refs/tags/'' @ tag) \<mapsto> CommitSHA config)"
    using first assms(3) by simp_all
  have present: "view s1 (owner, repo, ''refs/tags/'' @ tag) = Some (CommitSHA config)"
    by (simp add: v1)
  have r2: "r2 = None"
    and v2: "view s2 = (view s1)((owner, repo, ''refs/tags/'' @ tag) \<mapsto> CommitSHA config)"
    and c2: "calls ev2 =
      [GetRefCall owner repo (''tags/'' @ tag),
       UpdateRefCall owner repo (''tags/'' @ tag)
         \<lparr>SHA = CommitSHA config, Force = Some True\<rparr>]"
    using second assms(4) present by simp_all
  have "view s2 = view s1"
    unfolding v2 using present by (simp add: fun_upd_idem)
  with r1 r2 present c2 show ?thesis by blast
qed

theorem syncTag_idempotent_witness:
  "faithful memory_client (\<lambda>s. s) \<and>
   fst (syncTag memory_client example_config ''owner'' ''repo'' ''v1'' Map.empty) = None \<and>
   fst (syncTag memory_client example_config ''owner'' ''repo'' ''v1''
     (fst (snd (syncTag memory_client example_config ''owner'' ''repo'' ''v1'' Map.empty)))) =
     None \<and>
   fst (snd (syncTag memory_client example_config ''owner'' ''repo'' ''v1'' Map.empty))
     (''owner'', ''repo'', ''refs/tags/v1'') = Some ''abc123'' \<and>
   calls (snd (snd (syncTag memory_client example_config ''owner'' ''repo'' ''v1''
     (fst (snd (syncTag memory_client example_config ''owner'' ''repo'' ''v1'' Map.empty)))))) =
     [GetRefCall ''owner'' ''repo'' ''tags/v1'',
      UpdateRefCall ''owner'' ''repo'' ''tags/v1'' \<lparr>SHA = ''abc123'', Force = Some True\<rparr>]"
proof -
  let ?first = "syncTag memory_client example_config ''owner'' ''repo'' ''v1'' Map.empty"
  let ?second = "syncTag memory_client example_config ''owner'' ''repo'' ''v1''
     (fst (snd ?first))"
  have real: "\<not> DryRun example_config" and sha: "CommitSHA example_config = ''abc123''"
    by (simp_all add: example_config_def)
  have t1: "?first = (fst ?first, fst (snd ?first), snd (snd ?first))"
    and t2: "?second = (fst ?second, fst (snd ?second), snd (snd ?second))"
    by simp_all
  note t = syncTag_idempotent [OF memory_client_faithful real t1 t2]
  from t memory_client_faithful show ?thesis
    by (simp add: sha)
qed

text \<open>
  C8 as stated fails under dry run: after two reconciliations of \<open>v1\<close> on a faithful
  remote without refs, the ref still does not exist, and the second reconciliation is a
  lookup only, with no update.
\<close>

theorem syncTag_idempotent_dry_run_counterexample:
  "faithful memory_client (\<lambda>s. s) \<and>
   fst (syncTag memory_client (example_config\<lparr>DryRun := True\<rparr>) ''owner'' ''repo'' ''v1''
     Map.empty) = None \<and>
   fst (snd (syncTag memory_client (example_config\<lparr>DryRun := True\<rparr>) ''owner'' ''repo'' ''v1''
     (fst (snd (syncTag memory_client (example_config\<lparr>DryRun := True\<rparr>) ''owner'' ''repo''
        ''v1'' Map.empty)))))
     (''owner'', ''repo'', ''refs/tags/v1'') = None \<and>
   calls (snd (snd (syncTag memory_client (example_config\<lparr>DryRun := True\<rparr>) ''owner'' ''repo''
     ''v1''
     (fst (snd (syncTag memory_client (example_config\<lparr>DryRun := True\<rparr>) ''owner'' ''repo''
        ''v1'' Map.empty)))))) =
     [GetRefCall ''owner'' ''repo'' ''tags/v1'']"
proof -
  let ?config = "example_config\<lparr>DryRun := True\<rparr>"
  have first: "syncTag memory_client ?config ''owner'' ''repo'' ''v1'' Map.empty =
      (None, Map.empty,
       snd (snd (syncTag memory_client ?config ''owner'' ''repo'' ''v1'' Map.empty)))"
    by (simp add: syncTag_def memory_client_def example_config_def Let_def
        http_StatusNotFound_def)
  have state: "fst (snd (syncTag memory_client ?config ''owner'' ''repo'' ''v1'' Map.empty)) =
      Map.empty"
    and result: "fst (syncTag memory_client ?config ''owner'' ''repo'' ''v1'' Map.empty) = None"
    by (subst first, simp)+
  have "calls (snd (snd (syncTag memory_client ?config ''owner'' ''repo'' ''v1'' Map.empty))) =
      [GetRefCall ''owner'' ''repo'' ''tags/v1'']"
    by (simp add: syncTag_def memory_client_def example_config_def Let_def
        http_StatusNotFound_def)
  with state result memory_client_faithful show ?thesis
    by simp
qed

end
